theory Spec2Isabelle
  imports Complex_Main "HOL-Library.Sublist" "HOL-Library.List_Lexorder" "HOL-Library.Char_ord" "HOL-Library.Option_ord"
begin

section \<open>Shared data model\<close>

text \<open>
  The controllers of the server work against three collections of a document store
  (products, users, orders) and answer either with a body or by passing an error to
  the next handler.  The store is a record of lists, every handler is a function from
  its request and the store to a result and, where it writes, the new store.

  Identities (\<open>_id\<close>, an ObjectId in the source) are natural numbers.  A finite
  JavaScript number is the rational it denotes: comparison, \<open>===\<close>,
  \<open>Math.floor\<close> and \<open>Math.min\<close> are exact on these.  The sum of two numbers is
  not: the language rounds it, so the addition of prices is a parameter of the model,
  and a sum that overflows is outside the model.  The messages of the errors are
  Russian sentences in the source; here each message is a constructor named after what
  it says.
\<close>

type_synonym oid = nat

datatype bad_request =
    ItemsNotArray              \<comment> \<open>items is not an array\<close>
  | ItemsCount                 \<comment> \<open>wrong number of items (1-50)\<close>
  | PhoneNotString             \<comment> \<open>phone must be a string\<close>
  | PhoneTooLong               \<comment> \<open>phone too long\<close>
  | PhoneInvalid               \<comment> \<open>malformed phone\<close>
  | ProductMissing             \<comment> \<open>product not found (count guard)\<close>
  | ProductIdMissing oid       \<comment> \<open>product with id ... not found\<close>
  | ProductNotForSale oid      \<comment> \<open>product with id ... is not for sale\<close>
  | WrongTotal                 \<comment> \<open>wrong order total\<close>
  | SchemaValidation           \<comment> \<open>message of a Mongoose ValidationError\<close>
  | InvalidSearch              \<comment> \<open>malformed search\<close>
  | SearchTooLong              \<comment> \<open>search too long\<close>
  | InvalidStatus
  | InvalidTotalAmountFrom
  | InvalidTotalAmountTo
  | InvalidOrderCountFrom
  | InvalidOrderCountTo
  | InvalidOrderDateFrom
  | InvalidOrderDateTo
  | InvalidRegistrationDateFrom
  | InvalidRegistrationDateTo
  | InvalidLastOrderDateFrom
  | InvalidLastOrderDateTo
  | InvalidOrderId             \<comment> \<open>an invalid order ID was passed\<close>
  | FileMissing                \<comment> \<open>no file uploaded\<close>
  | FileTooSmall               \<comment> \<open>file too small\<close>
  | InvalidImage               \<comment> \<open>not a valid image\<close>

datatype not_found =
    OrderAbsent                \<comment> \<open>no order with the given id in the base\<close>
  | UserAbsent                 \<comment> \<open>no user with the given id in the base\<close>

datatype error =
    BadRequestError bad_request
  | NotFoundError not_found
  | CastError                  \<comment> \<open>Mongoose could not cast a value of the request\<close>
  | TypeError                  \<comment> \<open>property read on null\<close>
  | SyntaxError                \<comment> \<open>the RegExp constructor refused a pattern\<close>
  | MongoServerError           \<comment> \<open>the store refused a pipeline stage\<close>
  | Unmodelled                 \<comment> \<open>built-in behaviour this development does not cover\<close>

datatype jsnum = NaN | PosInf | NegInf | Fin rat

record product =
  p_id :: oid
  title :: string
  price :: "rat option"        \<comment> \<open>\<open>None\<close> is the source's \<open>null\<close>: not for sale\<close>

record user =
  u_id :: oid
  name :: string
  u_createdAt :: int
  lastOrderDate :: "int option"
  u_totalAmount :: rat
  orderCount :: rat
  u_orders :: "oid list"
  lastOrder :: "oid option"

record order =
  o_id :: oid
  orderNumber :: int
  status :: string
  totalAmount :: rat
  products :: "oid list"
  customer :: oid
  createdAt :: int             \<comment> \<open>milliseconds since the epoch\<close>
  deliveryAddress :: string
  phone :: string
  email :: string
  comment :: string
  payment :: string

record db =
  Product :: "product list"
  User :: "user list"
  Order :: "order list"

section \<open>Strings\<close>

text \<open>The strings of the model are ASCII strings, one character per UTF-16 unit of the
  source: the whitespace that \<open>trim\<close> removes and the digits of \<open>\d\<close> are those
  of ASCII.  A string with other characters (the other white space of Unicode, letters
  outside ASCII) is outside the model.\<close>

definition is_space :: "char \<Rightarrow> bool" where
  "is_space c = (c \<in> set [CHR '' '', CHR 0x09, CHR 0x0A, CHR 0x0B, CHR 0x0C, CHR 0x0D])"

definition trim :: "string \<Rightarrow> string" where
  "trim s = rev (dropWhile is_space (rev (dropWhile is_space s)))"

definition is_digit :: "char \<Rightarrow> bool" where
  "is_digit c = (c \<in> set ''0123456789'')"

section \<open>createOrder\<close>

text \<open>
  The body of the request.  \<open>items\<close> is any JSON value: not an array, or an array
  whose entries Mongoose either casts to an ObjectId (\<open>Some\<close>) or cannot cast.
  \<open>total\<close> is any JSON value; only a finite number can be \<open>===\<close> to the
  recomputed sum.
\<close>

datatype items_value = NotArray | Array "oid option list"
datatype string_value = NotString | String string
datatype total_value = Number rat | NotNumber

record order_body =
  b_address :: string
  b_payment :: string
  b_phone :: string_value
  b_total :: total_value
  b_email :: string
  b_items :: items_value
  b_comment :: string          \<comment> \<open>\<open>comment || ''\<close>: the empty string when absent\<close>

text \<open>
  What the Order model (models/order, not among the sources) contributes when a document
  is constructed and saved: the fields the constructor call does not set, the validation
  run by \<open>save\<close>, and the sanitize-html library called with no allowed tag.
\<close>

record order_model =
  new_id :: oid
  new_orderNumber :: int
  new_status :: string
  new_createdAt :: int
  validates :: "order \<Rightarrow> bool"
  sanitizeHtml :: "string \<Rightarrow> string"

definition MAX_ITEMS :: nat where
  "MAX_ITEMS = 50"

text \<open>\<open>/^\+?\d{10,15}$/.test(s)\<close>: an optional plus sign, then ten to fifteen digits.\<close>

definition phone_regex_test :: "string \<Rightarrow> bool" where
  "phone_regex_test s =
     (let ds = (case s of c # cs \<Rightarrow> if c = CHR ''+'' then cs else s | [] \<Rightarrow> s)
      in 10 \<le> length ds \<and> length ds \<le> 15 \<and> list_all is_digit ds)"

text \<open>\<open>Product.find({ _id: { $in: items } })\<close>: every document of the collection whose
  identity is one of \<open>items\<close>, each once, however often \<open>items\<close> names it.\<close>

definition find_in :: "product list \<Rightarrow> oid list \<Rightarrow> product list" where
  "find_in ps items = filter (\<lambda>p. p_id p \<in> set items) ps"

text \<open>The \<open>items.forEach\<close> loop: one basket entry per entry of \<open>items\<close>; the first
  entry without a product, or with a product of price null, throws.\<close>

fun fill_basket :: "product list \<Rightarrow> oid list \<Rightarrow> error + product list" where
  "fill_basket ps [] = Inr []"
| "fill_basket ps (i # is) =
     (case find (\<lambda>p. p_id p = i) ps of
        None \<Rightarrow> Inl (BadRequestError (ProductIdMissing i))
      | Some p \<Rightarrow>
          (case price p of
             None \<Rightarrow> Inl (BadRequestError (ProductNotForSale i))
           | Some _ \<Rightarrow>
               (case fill_basket ps is of
                  Inl e \<Rightarrow> Inl e
                | Inr basket \<Rightarrow> Inr (p # basket))))"

text \<open>\<open>basket.reduce((a, c) => a + c.price, 0)\<close>; every basket entry has a price.
  \<open>js_plus\<close> is the \<open>+\<close> of the language on two finite numbers, the sum as the
  language rounds it.\<close>

definition totalBasket :: "(rat \<Rightarrow> rat \<Rightarrow> rat) \<Rightarrow> product list \<Rightarrow> rat" where
  "totalBasket js_plus basket = foldl (\<lambda>a c. js_plus a (the (price c))) 0 basket"

definition new_Order :: "order_model \<Rightarrow> oid \<Rightarrow> order_body \<Rightarrow> rat \<Rightarrow> oid list \<Rightarrow> string \<Rightarrow> order" where
  "new_Order M userId b tot items normalizedPhone =
     \<lparr> o_id = new_id M,
       orderNumber = new_orderNumber M,
       status = new_status M,
       totalAmount = tot,
       products = items,
       customer = userId,
       createdAt = new_createdAt M,
       deliveryAddress = b_address b,
       phone = normalizedPhone,
       email = b_email b,
       comment = sanitizeHtml M (b_comment b),
       payment = b_payment b \<rparr>"

text \<open>\<open>save\<close>: the schema's validation, then the insert.  A ValidationError is turned
  into BadRequest by the handler's \<open>catch\<close>.\<close>

definition save :: "order_model \<Rightarrow> order \<Rightarrow> db \<Rightarrow> (error + order) \<times> db" where
  "save M doc d =
     (if validates M doc then (Inr doc, d\<lparr>Order := Order d @ [doc]\<rparr>)
      else (Inl (BadRequestError SchemaValidation), d))"

definition createOrder ::
    "(rat \<Rightarrow> rat \<Rightarrow> rat) \<Rightarrow> order_model \<Rightarrow> oid \<Rightarrow> order_body \<Rightarrow> db \<Rightarrow> (error + order) \<times> db" where
  "createOrder js_plus M userId b d =
     (case b_items b of
        NotArray \<Rightarrow> (Inl (BadRequestError ItemsNotArray), d)
      | Array raw \<Rightarrow>
          if length raw = 0 \<or> length raw > MAX_ITEMS then (Inl (BadRequestError ItemsCount), d)
          else (case b_phone b of
             NotString \<Rightarrow> (Inl (BadRequestError PhoneNotString), d)
           | String ph \<Rightarrow>
               let normalizedPhone = trim ph in
               if length normalizedPhone > 20 then (Inl (BadRequestError PhoneTooLong), d)
               else if \<not> phone_regex_test normalizedPhone then (Inl (BadRequestError PhoneInvalid), d)
               else if list_ex (\<lambda>i. i = None) raw then (Inl CastError, d)
               else
                 let items = map the raw;
                     found = find_in (Product d) items
                 in if length found \<noteq> length items then (Inl (BadRequestError ProductMissing), d)
                    else (case fill_basket found items of
                       Inl e \<Rightarrow> (Inl e, d)
                     | Inr basket \<Rightarrow>
                         (case b_total b of
                            NotNumber \<Rightarrow> (Inl (BadRequestError WrongTotal), d)
                          | Number tot \<Rightarrow>
                              if totalBasket js_plus basket \<noteq> tot then (Inl (BadRequestError WrongTotal), d)
                              else save M (new_Order M userId b tot items normalizedPhone) d))))"

section \<open>JavaScript numbers\<close>

text \<open>
  \<open>Number(x)\<close> and \<open>new Date(x)\<close> are built-ins of the language: a request carries, for
  every numeric query parameter, the number that \<open>Number\<close> makes of it, and the
  handlers take the two conversions of strings as parameters.  Negative zero is
  identified with zero.
\<close>

record js_env =
  Number_of :: "string \<Rightarrow> jsnum"          \<comment> \<open>\<open>Number(s)\<close>\<close>
  Date_of :: "string \<Rightarrow> int option"        \<comment> \<open>\<open>new Date(s).getTime()\<close>, \<open>None\<close> for an invalid date\<close>
  LocalTZA :: "int \<Rightarrow> bool \<Rightarrow> int"
    \<comment> \<open>the offset of the local time zone in milliseconds, at an instant given in UTC
       (\<open>True\<close>) or in local time (\<open>False\<close>), as the language defines it\<close>

definition isNaN :: "jsnum \<Rightarrow> bool" where
  "isNaN x = (x = NaN)"

definition js_neg :: "jsnum \<Rightarrow> jsnum" where
  "js_neg x = (case x of NaN \<Rightarrow> NaN | PosInf \<Rightarrow> NegInf | NegInf \<Rightarrow> PosInf | Fin a \<Rightarrow> Fin (- a))"

fun js_add :: "jsnum \<Rightarrow> jsnum \<Rightarrow> jsnum" where
  "js_add NaN _ = NaN"
| "js_add _ NaN = NaN"
| "js_add PosInf NegInf = NaN"
| "js_add NegInf PosInf = NaN"
| "js_add PosInf _ = PosInf"
| "js_add _ PosInf = PosInf"
| "js_add NegInf _ = NegInf"
| "js_add _ NegInf = NegInf"
| "js_add (Fin a) (Fin b) = Fin (a + b)"

definition js_sub :: "jsnum \<Rightarrow> jsnum \<Rightarrow> jsnum" where
  "js_sub x y = js_add x (js_neg y)"

definition js_sign :: "jsnum \<Rightarrow> int" where
  "js_sign x =
     (case x of
        NaN \<Rightarrow> 0 | PosInf \<Rightarrow> 1 | NegInf \<Rightarrow> - 1
      | Fin a \<Rightarrow> if a > 0 then 1 else if a < 0 then - 1 else 0)"

definition js_signed_inf :: "int \<Rightarrow> jsnum" where
  "js_signed_inf s = (if s = 0 then NaN else if s > 0 then PosInf else NegInf)"

fun js_mul :: "jsnum \<Rightarrow> jsnum \<Rightarrow> jsnum" where
  "js_mul NaN _ = NaN"
| "js_mul _ NaN = NaN"
| "js_mul (Fin a) (Fin b) = Fin (a * b)"
| "js_mul x y = js_signed_inf (js_sign x * js_sign y)"

fun js_div :: "jsnum \<Rightarrow> jsnum \<Rightarrow> jsnum" where
  "js_div NaN _ = NaN"
| "js_div _ NaN = NaN"
| "js_div (Fin a) (Fin b) = (if b = 0 then js_signed_inf (js_sign (Fin a)) else Fin (a / b))"
| "js_div (Fin a) _ = Fin 0"
| "js_div x (Fin b) = js_signed_inf (js_sign x * (if b < 0 then - 1 else 1))"
| "js_div _ _ = NaN"

definition Math_ceil :: "jsnum \<Rightarrow> jsnum" where
  "Math_ceil x = (case x of Fin a \<Rightarrow> Fin (of_int \<lceil>a\<rceil>) | _ \<Rightarrow> x)"

text \<open>\<open>Array.prototype.slice(start, end)\<close>: both arguments go through
  ToIntegerOrInfinity, a negative index counts from the end.\<close>

definition slice_index :: "nat \<Rightarrow> jsnum \<Rightarrow> nat" where
  "slice_index len x =
     (case x of
        NaN \<Rightarrow> 0
      | NegInf \<Rightarrow> 0
      | PosInf \<Rightarrow> len
      | Fin a \<Rightarrow>
          let i = (if a < 0 then \<lceil>a\<rceil> else \<lfloor>a\<rfloor>)
          in if i < 0 then nat (max (int len + i) 0) else min (nat i) len)"

definition slice :: "'a list \<Rightarrow> jsnum \<Rightarrow> jsnum \<Rightarrow> 'a list" where
  "slice xs start fin =
     (let k = slice_index (length xs) start; e = slice_index (length xs) fin
      in take (e - k) (drop k xs))"

section \<open>Pagination of the list endpoints\<close>

definition MAX_LIMIT :: int where
  "MAX_LIMIT = 10"

text \<open>A parameter with a default: the default stands in only when the query has no value.\<close>

definition or_default :: "jsnum option \<Rightarrow> rat \<Rightarrow> jsnum" where
  "or_default x dflt = (case x of None \<Rightarrow> Fin dflt | Some n \<Rightarrow> n)"

text \<open>\<open>Number.isFinite(x) && x > 0 ? Math.floor(x) : 1\<close>, and the same with
  \<open>Math.min(Math.floor(x), MAX_LIMIT)\<close> and the default 10: the finite numbers are
  those of the form \<open>Fin x\<close>.\<close>

definition safePage :: "jsnum \<Rightarrow> int" where
  "safePage page = (case page of Fin x \<Rightarrow> if x > 0 then \<lfloor>x\<rfloor> else 1 | _ \<Rightarrow> 1)"

definition safeLimit :: "jsnum \<Rightarrow> int" where
  "safeLimit limit = (case limit of Fin x \<Rightarrow> if x > 0 then min \<lfloor>x\<rfloor> MAX_LIMIT else 10 | _ \<Rightarrow> 10)"

section \<open>Regular expressions\<close>

text \<open>
  The part of the pattern language of \<open>RegExp\<close> that the handlers can meet after
  \<open>escapeRegExp\<close>, and the part a short unescaped search string uses: literal
  characters, the dot, identity escapes of the syntax characters and the quantifiers
  \<open>*\<close>, \<open>+\<close>, \<open>?\<close> (greedy or lazy).  A pattern with a quantifier that has
  nothing to repeat, or with a lone backslash at its end, is a SyntaxError as in the
  language; every other construct (groups, classes, alternation, anchors, braces, class
  escapes) is answered with \<open>Unmodelled\<close>.  Characters are bytes, and the \<open>i\<close> flag
  folds the ASCII letters.
\<close>

definition backslash :: char where
  "backslash = CHR 0x5C"

definition regex_syntax_chars :: "char list" where
  "regex_syntax_chars = ''.*+?^${}()|[]'' @ [backslash]"

text \<open>\<open>s.replace(/[.*+?^${}()|[\]\\]/g, '\\$&')\<close>, the local \<open>escapeRegex\<close> of the
  orders controller.\<close>

definition escapeRegex :: "string \<Rightarrow> string" where
  "escapeRegex s = concat (map (\<lambda>c. if c \<in> set regex_syntax_chars then [backslash, c] else [c]) s)"

text \<open>Modelled from the spec: the helper \<open>utils/escapeRegExp\<close>, which the list endpoints
  import and which is not among the sources.  The specification says that it escapes
  every regex metacharacter literally; that is what the local \<open>escapeRegex\<close> does.\<close>

definition escapeRegExp :: "string \<Rightarrow> string" where
  "escapeRegExp s = escapeRegex s"

datatype atom = Lit char | AnyChar
datatype quant = One | ZeroOrMore | OneOrMore | ZeroOrOne
datatype token = TAtom atom | TQuant quant | TError error
type_synonym regex = "(atom \<times> quant) list"

definition token_of :: "char \<Rightarrow> token" where
  "token_of c =
     (if c = CHR ''.'' then TAtom AnyChar
      else if c = CHR ''*'' then TQuant ZeroOrMore
      else if c = CHR ''+'' then TQuant OneOrMore
      else if c = CHR ''?'' then TQuant ZeroOrOne
      else if c \<in> set regex_syntax_chars then TError Unmodelled
      else TAtom (Lit c))"

fun tokens :: "string \<Rightarrow> token list" where
  "tokens [] = []"
| "tokens [c] = (if c = backslash then [TError SyntaxError] else [token_of c])"
| "tokens (c # e # cs) =
     (if c = backslash
      then (if e \<in> set regex_syntax_chars then TAtom (Lit e) else TError Unmodelled) # tokens cs
      else token_of c # tokens (e # cs))"

definition cons_term :: "atom \<times> quant \<Rightarrow> error + regex \<Rightarrow> error + regex" where
  "cons_term t r = (case r of Inl e \<Rightarrow> Inl e | Inr ts \<Rightarrow> Inr (t # ts))"

fun terms :: "token list \<Rightarrow> error + regex" where
  "terms [] = Inr []"
| "terms (TError e # ts) = Inl e"
| "terms (TQuant q # ts) = Inl SyntaxError"
| "terms (TAtom a # TQuant q # TQuant ZeroOrOne # ts) = cons_term (a, q) (terms ts)"
| "terms (TAtom a # TQuant q # ts) = cons_term (a, q) (terms ts)"
| "terms (TAtom a # ts) = cons_term (a, One) (terms ts)"

text \<open>\<open>new RegExp(pattern, 'i')\<close>.\<close>

definition RegExp :: "string \<Rightarrow> error + regex" where
  "RegExp pattern = terms (tokens pattern)"

definition lower :: "char \<Rightarrow> char" where
  "lower c =
     (case map_of (zip ''ABCDEFGHIJKLMNOPQRSTUVWXYZ'' ''abcdefghijklmnopqrstuvwxyz'') c of
        None \<Rightarrow> c | Some l \<Rightarrow> l)"

definition atom_matches :: "atom \<Rightarrow> char \<Rightarrow> bool" where
  "atom_matches a c =
     (case a of
        Lit l \<Rightarrow> lower l = lower c
      | AnyChar \<Rightarrow> c \<noteq> CHR 0x0A \<and> c \<noteq> CHR 0x0D)"

text \<open>Whether the pattern matches a prefix of the text.\<close>

fun match_here :: "regex \<Rightarrow> string \<Rightarrow> bool" where
  "match_here [] s = True"
| "match_here ((a, One) # r) [] = False"
| "match_here ((a, One) # r) (c # s) = (atom_matches a c \<and> match_here r s)"
| "match_here ((a, ZeroOrOne) # r) [] = match_here r []"
| "match_here ((a, ZeroOrOne) # r) (c # s) =
     ((atom_matches a c \<and> match_here r s) \<or> match_here r (c # s))"
| "match_here ((a, ZeroOrMore) # r) [] = match_here r []"
| "match_here ((a, ZeroOrMore) # r) (c # s) =
     ((atom_matches a c \<and> match_here ((a, ZeroOrMore) # r) s) \<or> match_here r (c # s))"
| "match_here ((a, OneOrMore) # r) [] = False"
| "match_here ((a, OneOrMore) # r) (c # s) =
     (atom_matches a c \<and> match_here ((a, ZeroOrMore) # r) s)"

text \<open>\<open>regex.test(text)\<close>, and a \<open>$regex\<close> condition of the store: the pattern matches
  somewhere in the text.\<close>

fun regex_test :: "regex \<Rightarrow> string \<Rightarrow> bool" where
  "regex_test r [] = match_here r []"
| "regex_test r (c # s) = (match_here r (c # s) \<or> regex_test r s)"

text \<open>What the specification asks of a search: the search string occurs in the text as
  it stands, letters compared without case.\<close>

definition contains_ci :: "string \<Rightarrow> string \<Rightarrow> bool" where
  "contains_ci text needle = sublist (map lower needle) (map lower text)"

section \<open>Orders and customers by key\<close>

text \<open>
  A path parameter reaches the store through a cast of Mongoose: \<open>None\<close> is a parameter
  the cast refuses (a CastError), \<open>Some\<close> the value it yields.  \<open>findOne\<close> and
  \<open>findById\<close> answer with the first document that matches, \<open>populate\<close> replaces a
  reference by the document it names, and by \<open>null\<close> when no document has that
  identity.
\<close>

record populated_order =
  po_order :: order
  po_customer :: "user option"
  po_products :: "product list"

text \<open>Populating an array of references keeps the order of the array and leaves out the
  references that name no document.\<close>

definition populate_many :: "('a \<Rightarrow> oid) \<Rightarrow> 'a list \<Rightarrow> oid list \<Rightarrow> 'a list" where
  "populate_many key docs refs =
     concat (map (\<lambda>i. case find (\<lambda>x. key x = i) docs of None \<Rightarrow> [] | Some x \<Rightarrow> [x]) refs)"

definition populate_order :: "db \<Rightarrow> order \<Rightarrow> populated_order" where
  "populate_order d o' =
     \<lparr> po_order = o',
       po_customer = find (\<lambda>u. u_id u = customer o') (User d),
       po_products = populate_many p_id (Product d) (products o') \<rparr>"

definition getOrderCurrentUserByNumber ::
    "oid \<Rightarrow> int option \<Rightarrow> db \<Rightarrow> error + nat \<times> populated_order" where
  "getOrderCurrentUserByNumber userId orderNumberParam d =
     (case orderNumberParam of
        None \<Rightarrow> Inl (BadRequestError InvalidOrderId)
      | Some n \<Rightarrow>
          (case find (\<lambda>o'. orderNumber o' = n) (Order d) of
             None \<Rightarrow> Inl (NotFoundError OrderAbsent)
           | Some o' \<Rightarrow>
               let populated = populate_order d o' in
               (case po_customer populated of
                  None \<Rightarrow> Inl TypeError
                | Some c \<Rightarrow>
                    if u_id c \<noteq> userId then Inl (NotFoundError OrderAbsent)
                    else Inr (200, populated))))"

definition getCustomerById :: "oid option \<Rightarrow> db \<Rightarrow> error + nat \<times> user option" where
  "getCustomerById idParam d =
     (case idParam of
        None \<Rightarrow> Inl CastError
      | Some i \<Rightarrow> Inr (200, find (\<lambda>u. u_id u = i) (User d)))"

text \<open>\<open>findByIdAndUpdate(id, req.body, { new: true })\<close>: what the body does to a user is
  the parameter \<open>upd\<close>.\<close>

fun update_first :: "('a \<Rightarrow> bool) \<Rightarrow> ('a \<Rightarrow> 'a) \<Rightarrow> 'a list \<Rightarrow> 'a list" where
  "update_first P f [] = []"
| "update_first P f (x # xs) = (if P x then f x # xs else x # update_first P f xs)"

fun delete_first :: "('a \<Rightarrow> bool) \<Rightarrow> 'a list \<Rightarrow> 'a list" where
  "delete_first P [] = []"
| "delete_first P (x # xs) = (if P x then xs else x # delete_first P xs)"

definition updateCustomer ::
    "(user \<Rightarrow> user) \<Rightarrow> oid option \<Rightarrow> db \<Rightarrow> (error + nat \<times> user) \<times> db" where
  "updateCustomer upd idParam d =
     (case idParam of
        None \<Rightarrow> (Inl CastError, d)
      | Some i \<Rightarrow>
          (case find (\<lambda>u. u_id u = i) (User d) of
             None \<Rightarrow> (Inl (NotFoundError UserAbsent), d)
           | Some u \<Rightarrow>
               (Inr (200, upd u), d\<lparr>User := update_first (\<lambda>u. u_id u = i) upd (User d)\<rparr>)))"

definition deleteCustomer :: "oid option \<Rightarrow> db \<Rightarrow> (error + nat \<times> user) \<times> db" where
  "deleteCustomer idParam d =
     (case idParam of
        None \<Rightarrow> (Inl CastError, d)
      | Some i \<Rightarrow>
          (case find (\<lambda>u. u_id u = i) (User d) of
             None \<Rightarrow> (Inl (NotFoundError UserAbsent), d)
           | Some u \<Rightarrow>
               (Inr (200, u), d\<lparr>User := delete_first (\<lambda>u. u_id u = i) (User d)\<rparr>)))"

section \<open>uploadFile\<close>

text \<open>
  The handler sees the file that the upload middleware stored, may delete it, and may
  ask the image library for its metadata.  The disk is the list of the paths that exist;
  the calls the handler makes are recorded in the order it makes them.  A failing
  \<open>unlink\<close> is swallowed by the source; deleting a path that is not there changes
  nothing.
\<close>

record multer_file =
  f_size :: "nat option"       \<comment> \<open>\<open>file.size\<close>, \<open>None\<close> when undefined\<close>
  f_path :: string             \<comment> \<open>\<open>file.path\<close>, empty when absent\<close>
  f_filename :: string
  f_originalname :: string

datatype sharp_result = Rejected | Metadata "nat option" "nat option"

datatype call = Unlink string | SharpMetadata string

record upload_state =
  disk :: "string list"
  calls :: "call list"

record upload_env =
  sharp :: "string \<Rightarrow> sharp_result"
  UPLOAD_PATH :: string                     \<comment> \<open>empty when the variable is not set\<close>
  UPLOAD_PATH_TEMP :: string

definition MIN_FILE_SIZE_BYTES :: nat where
  "MIN_FILE_SIZE_BYTES = 2 * 1024"

definition MIN_FILE_SIZE_STRICT :: nat where
  "MIN_FILE_SIZE_STRICT = MIN_FILE_SIZE_BYTES + 1"

definition unlink :: "string \<Rightarrow> upload_state \<Rightarrow> upload_state" where
  "unlink path s = \<lparr> disk = removeAll path (disk s), calls = calls s @ [Unlink path] \<rparr>"

definition metadata :: "upload_env \<Rightarrow> string \<Rightarrow> upload_state \<Rightarrow> sharp_result \<times> upload_state" where
  "metadata E path s = (sharp E path, s\<lparr>calls := calls s @ [SharpMetadata path]\<rparr>)"

text \<open>\<open>base.replace(/^\/+|\/+$/g, '')\<close>\<close>

definition strip_slashes :: "string \<Rightarrow> string" where
  "strip_slashes s =
     rev (dropWhile (\<lambda>c. c = CHR ''/'') (rev (dropWhile (\<lambda>c. c = CHR ''/'') s)))"

definition truthy :: "nat option \<Rightarrow> bool" where
  "truthy n = (case n of None \<Rightarrow> False | Some k \<Rightarrow> k \<noteq> 0)"

definition uploadFile ::
    "upload_env \<Rightarrow> multer_file option \<Rightarrow> upload_state \<Rightarrow> (error + nat \<times> string \<times> string) \<times> upload_state" where
  "uploadFile E req_file s =
     (case req_file of
        None \<Rightarrow> (Inl (BadRequestError FileMissing), s)
      | Some file \<Rightarrow>
          if (case f_size file of None \<Rightarrow> 0 | Some n \<Rightarrow> n) < MIN_FILE_SIZE_STRICT
          then (Inl (BadRequestError FileTooSmall),
                if f_path file \<noteq> [] then unlink (f_path file) s else s)
          else
            (case metadata E (f_path file) s of
               (Rejected, s1) \<Rightarrow> (Inl (BadRequestError InvalidImage), unlink (f_path file) s1)
             | (Metadata w h, s1) \<Rightarrow>
                 if \<not> truthy w \<or> \<not> truthy h
                 then (Inl (BadRequestError InvalidImage), unlink (f_path file) s1)
                 else
                   let base = (if UPLOAD_PATH E \<noteq> [] then UPLOAD_PATH E else UPLOAD_PATH_TEMP E);
                       normalizedBase = (if base \<noteq> [] then CHR ''/'' # strip_slashes base else [])
                   in (Inr (201, normalizedBase @ CHR ''/'' # f_filename file, f_originalname file), s1)))"

section \<open>The list endpoints\<close>

subsection \<open>Query parameters\<close>

text \<open>A value of the query string is a string, or an array or object of the query parser.\<close>

datatype qval = QString string | QOther

definition then_with :: "error + 'a \<Rightarrow> ('a \<Rightarrow> error + 'b) \<Rightarrow> error + 'b" where
  "then_with r f = (case r of Inl e \<Rightarrow> Inl e | Inr x \<Rightarrow> f x)"

definition safeSortField :: "string list \<Rightarrow> qval option \<Rightarrow> string" where
  "safeSortField allowedSortFields v =
     (case v of
        Some (QString s) \<Rightarrow> if s \<in> set allowedSortFields then s else ''createdAt''
      | Some QOther \<Rightarrow> ''createdAt''
      | None \<Rightarrow> ''createdAt'')"

definition safeSortOrder :: "qval option \<Rightarrow> string" where
  "safeSortOrder v =
     (case v of
        Some (QString s) \<Rightarrow> if s = ''asc'' \<or> s = ''desc'' then s else ''desc''
      | Some QOther \<Rightarrow> ''desc''
      | None \<Rightarrow> ''desc'')"

definition safeSearch :: "qval option \<Rightarrow> error + string option" where
  "safeSearch v =
     (case v of
        None \<Rightarrow> Inr None
      | Some QOther \<Rightarrow> Inl (BadRequestError InvalidSearch)
      | Some (QString s) \<Rightarrow>
          if length (trim s) > 50 then Inl (BadRequestError SearchTooLong)
          else Inr (Some (trim s)))"

definition number_param :: "bad_request \<Rightarrow> jsnum option \<Rightarrow> error + rat option" where
  "number_param msg v =
     (case v of
        None \<Rightarrow> Inr None
      | Some (Fin x) \<Rightarrow> Inr (Some x)
      | Some _ \<Rightarrow> Inl (BadRequestError msg))"

definition date_param :: "js_env \<Rightarrow> bad_request \<Rightarrow> qval option \<Rightarrow> error + int option" where
  "date_param E msg v =
     (case v of
        None \<Rightarrow> Inr None
      | Some QOther \<Rightarrow> Inl (BadRequestError msg)
      | Some (QString s) \<Rightarrow>
          (case Date_of E s of
             None \<Rightarrow> Inl (BadRequestError msg)
           | Some t \<Rightarrow> Inr (Some t)))"

text \<open>\<open>endOfDay.setHours(23, 59, 59, 999)\<close>: the instant is taken to local time, its
  time of day is replaced, and the result is taken back to UTC with the offset that holds
  at the new local time.\<close>

definition setHours_endOfDay :: "js_env \<Rightarrow> int \<Rightarrow> int" where
  "setHours_endOfDay E t =
     (let local = t + LocalTZA E t True;
          day = (local div 86400000) * 86400000;
          newLocal = day + (23 * 3600000 + 59 * 60000 + 59 * 1000 + 999)
      in newLocal - LocalTZA E newLocal False)"

definition end_of_day_param :: "js_env \<Rightarrow> bad_request \<Rightarrow> qval option \<Rightarrow> error + int option" where
  "end_of_day_param E msg v =
     then_with (date_param E msg v) (\<lambda>t. Inr (map_option (setHours_endOfDay E) t))"

definition in_range :: "'a::linorder \<Rightarrow> 'a option \<Rightarrow> 'a option \<Rightarrow> bool" where
  "in_range x gte lte =
     ((case gte of None \<Rightarrow> True | Some l \<Rightarrow> l \<le> x) \<and> (case lte of None \<Rightarrow> True | Some h \<Rightarrow> x \<le> h))"

text \<open>The stages \<open>$skip\<close> and \<open>$limit\<close> of an aggregation: the store refuses a negative
  skip and a limit that is not positive.\<close>

definition skip_stage :: "int \<Rightarrow> 'a list \<Rightarrow> error + 'a list" where
  "skip_stage n xs = (if n < 0 then Inl MongoServerError else Inr (drop (nat n) xs))"

definition limit_stage :: "int \<Rightarrow> 'a list \<Rightarrow> error + 'a list" where
  "limit_stage n xs = (if n \<le> 0 then Inl MongoServerError else Inr (take (nat n) xs))"

definition directed :: "string \<Rightarrow> 'a list \<Rightarrow> 'a list" where
  "directed safeSortOrder' xs = (if safeSortOrder' = ''desc'' then rev xs else xs)"

subsection \<open>getOrders\<close>

record orders_query =
  q_page :: "jsnum option"
  q_limit :: "jsnum option"
  q_sortField :: "qval option"
  q_sortOrder :: "qval option"
  q_status :: "qval option"
  q_totalAmountFrom :: "jsnum option"
  q_totalAmountTo :: "jsnum option"
  q_orderDateFrom :: "qval option"
  q_orderDateTo :: "qval option"
  q_search :: "qval option"

record order_filters =
  of_status :: "string option"
  of_totalAmount_gte :: "rat option"
  of_totalAmount_lte :: "rat option"
  of_createdAt_gte :: "int option"
  of_createdAt_lte :: "int option"

definition allowedStatuses :: "string list" where
  "allowedStatuses = [''completed'', ''pending'', ''created'', ''cancelled'']"

definition status_param :: "qval option \<Rightarrow> error + string option" where
  "status_param v =
     (case v of
        None \<Rightarrow> Inr None
      | Some QOther \<Rightarrow> Inl (BadRequestError InvalidStatus)
      | Some (QString s) \<Rightarrow>
          if s \<notin> set allowedStatuses then Inl (BadRequestError InvalidStatus) else Inr (Some s))"

definition order_filters_of :: "js_env \<Rightarrow> orders_query \<Rightarrow> error + order_filters" where
  "order_filters_of E q =
     then_with (status_param (q_status q)) (\<lambda>st.
     then_with (number_param InvalidTotalAmountFrom (q_totalAmountFrom q)) (\<lambda>amountFrom.
     then_with (number_param InvalidTotalAmountTo (q_totalAmountTo q)) (\<lambda>amountTo.
     then_with (date_param E InvalidOrderDateFrom (q_orderDateFrom q)) (\<lambda>dateFrom.
     then_with (date_param E InvalidOrderDateTo (q_orderDateTo q)) (\<lambda>dateTo.
       Inr \<lparr> of_status = st,
             of_totalAmount_gte = amountFrom, of_totalAmount_lte = amountTo,
             of_createdAt_gte = dateFrom, of_createdAt_lte = dateTo \<rparr>)))))"

definition order_matches :: "order_filters \<Rightarrow> order \<Rightarrow> bool" where
  "order_matches f o' =
     ((case of_status f of None \<Rightarrow> True | Some s \<Rightarrow> status o' = s) \<and>
      in_range (totalAmount o') (of_totalAmount_gte f) (of_totalAmount_lte f) \<and>
      in_range (createdAt o') (of_createdAt_gte f) (of_createdAt_lte f))"

text \<open>A row of the flattened collection: one order, its customer, one of its products.\<close>

record row =
  r_order :: order
  r_customer :: user
  r_product :: product

text \<open>The two \<open>$lookup\<close> stages and the two \<open>$unwind\<close> stages: a lookup collects the
  documents of the other collection whose identity the order references, each once; an
  unwind makes one row per collected document, none when there is none.\<close>

definition lookup_unwind :: "db \<Rightarrow> order \<Rightarrow> row list" where
  "lookup_unwind d o' =
     concat (map (\<lambda>c. map (\<lambda>p. \<lparr> r_order = o', r_customer = c, r_product = p \<rparr>)
                          (filter (\<lambda>p. p_id p \<in> set (products o')) (Product d)))
                 (filter (\<lambda>u. u_id u = customer o') (User d)))"

definition searchConditions :: "js_env \<Rightarrow> string \<Rightarrow> error + (row \<Rightarrow> bool)" where
  "searchConditions E safeSearch' =
     then_with (RegExp (escapeRegExp safeSearch')) (\<lambda>searchRegex.
       let searchNumber = Number_of E safeSearch'
       in Inr (\<lambda>r. regex_test searchRegex (title (r_product r)) \<or>
                    (\<not> isNaN searchNumber \<and> Fin (of_int (orderNumber (r_order r))) = searchNumber)))"

definition basePipeline :: "db \<Rightarrow> order_filters \<Rightarrow> (row \<Rightarrow> bool) option \<Rightarrow> row list" where
  "basePipeline d f cond =
     (let flat = concat (map (lookup_unwind d) (filter (order_matches f) (Order d)))
      in case cond of None \<Rightarrow> flat | Some c \<Rightarrow> filter c flat)"

definition order_sort_fields :: "string list" where
  "order_sort_fields = [''createdAt'', ''totalAmount'', ''orderNumber'', ''status'']"

definition sort_stage :: "string \<Rightarrow> string \<Rightarrow> row list \<Rightarrow> row list" where
  "sort_stage safeSortField' safeSortOrder' rs =
     directed safeSortOrder'
       (if safeSortField' = ''totalAmount'' then sort_key (\<lambda>r. totalAmount (r_order r)) rs
        else if safeSortField' = ''orderNumber'' then sort_key (\<lambda>r. orderNumber (r_order r)) rs
        else if safeSortField' = ''status'' then sort_key (\<lambda>r. status (r_order r)) rs
        else sort_key (\<lambda>r. createdAt (r_order r)) rs)"

record order_view =
  v_id :: oid
  v_orderNumber :: int
  v_status :: string
  v_totalAmount :: rat
  v_products :: "product list"
  v_customer :: user
  v_createdAt :: int

text \<open>\<open>$group\<close> by \<open>_id\<close>: one document per identity, with the scalar fields of the
  first row of the group and the products of all its rows.\<close>

fun group_stage :: "row list \<Rightarrow> order_view list" where
  "group_stage [] = []"
| "group_stage (r # rs) =
     \<lparr> v_id = o_id (r_order r),
       v_orderNumber = orderNumber (r_order r),
       v_status = status (r_order r),
       v_totalAmount = totalAmount (r_order r),
       v_products = map r_product (filter (\<lambda>x. o_id (r_order x) = o_id (r_order r)) (r # rs)),
       v_customer = r_customer r,
       v_createdAt = createdAt (r_order r) \<rparr>
     # group_stage (filter (\<lambda>x. o_id (r_order x) \<noteq> o_id (r_order r)) rs)"

definition dataPipeline :: "string \<Rightarrow> string \<Rightarrow> int \<Rightarrow> int \<Rightarrow> row list \<Rightarrow> error + order_view list" where
  "dataPipeline safeSortField' safeSortOrder' skip' limit' basePipeline' =
     then_with (skip_stage skip' (sort_stage safeSortField' safeSortOrder' basePipeline')) (\<lambda>skipped.
     then_with (limit_stage limit' skipped) (\<lambda>limited.
       Inr (group_stage limited)))"

text \<open>\<open>$group\<close> by \<open>_id\<close>, then \<open>$count\<close>: no document at all when there is no group.\<close>

definition countPipeline :: "row list \<Rightarrow> nat list" where
  "countPipeline basePipeline' =
     (let groups = remdups (map (\<lambda>r. o_id (r_order r)) basePipeline')
      in if groups = [] then [] else [length groups])"

record orders_response =
  r_orders :: "order_view list"
  totalOrders :: nat
  totalPages :: int
  currentPage :: int
  pageSize :: int

definition getOrders :: "js_env \<Rightarrow> orders_query \<Rightarrow> db \<Rightarrow> error + orders_response" where
  "getOrders E q d =
     (let safePage' = safePage (or_default (q_page q) 1);
          safeLimit' = safeLimit (or_default (q_limit q) 10);
          safeSortField' = safeSortField order_sort_fields (q_sortField q);
          safeSortOrder' = safeSortOrder (q_sortOrder q)
      in then_with (safeSearch (q_search q)) (\<lambda>safeSearch'.
         then_with (order_filters_of E q) (\<lambda>f.
         then_with (case safeSearch' of
                      None \<Rightarrow> Inr None
                    | Some s \<Rightarrow> if s = [] then Inr None
                               else then_with (searchConditions E s) (\<lambda>c. Inr (Some c))) (\<lambda>cond.
           let basePipeline' = basePipeline d f cond
           in then_with (dataPipeline safeSortField' safeSortOrder'
                           ((safePage' - 1) * safeLimit') safeLimit' basePipeline') (\<lambda>orders.
                let totalAgg = countPipeline basePipeline';
                    totalOrders' = (case totalAgg of [] \<Rightarrow> 0 | t # _ \<Rightarrow> t)
                in Inr \<lparr> r_orders = orders,
                         totalOrders = totalOrders',
                         totalPages = \<lceil>(of_nat totalOrders' :: rat) / of_int safeLimit'\<rceil>,
                         currentPage = safePage',
                         pageSize = safeLimit' \<rparr>)))))"

subsection \<open>getOrdersCurrentUser\<close>

record my_orders_query =
  mq_search :: "qval option"
  mq_page :: "jsnum option"
  mq_limit :: "jsnum option"

record my_orders_response =
  m_orders :: "populated_order list"
  m_totalOrders :: nat
  m_totalPages :: jsnum
  m_currentPage :: jsnum
  m_pageSize :: jsnum

text \<open>The search of the orders of the current user: the pattern is the search string
  as it came.  A search that is an array or an object is outside the model.\<close>

definition search_my_orders ::
    "js_env \<Rightarrow> db \<Rightarrow> qval option \<Rightarrow> populated_order list \<Rightarrow> error + populated_order list" where
  "search_my_orders E d v orders =
     (case v of
        None \<Rightarrow> Inr orders
      | Some QOther \<Rightarrow> Inl Unmodelled
      | Some (QString s) \<Rightarrow>
          if s = [] then Inr orders
          else then_with (RegExp s) (\<lambda>searchRegex.
            let searchNumber = Number_of E s;
                productIds = map p_id (filter (\<lambda>p. regex_test searchRegex (title p)) (Product d))
            in Inr (filter (\<lambda>po.
                 let matchesProductTitle = list_ex (\<lambda>p. list_ex (\<lambda>i. i = p_id p) productIds) (po_products po);
                     matchesOrderNumber = (\<not> isNaN searchNumber \<and>
                       Fin (of_int (orderNumber (po_order po))) = searchNumber)
                 in matchesOrderNumber \<or> matchesProductTitle) orders)))"

definition getOrdersCurrentUser ::
    "js_env \<Rightarrow> oid \<Rightarrow> my_orders_query \<Rightarrow> db \<Rightarrow> error + my_orders_response" where
  "getOrdersCurrentUser E userId q d =
     (let page = or_default (mq_page q) 1;
          limit = or_default (mq_limit q) 5;
          skip' = js_mul (js_sub page (Fin 1)) limit
      in case find (\<lambda>u. u_id u = userId) (User d) of
           None \<Rightarrow> Inl (NotFoundError UserAbsent)
         | Some usr \<Rightarrow>
             then_with (search_my_orders E d (mq_search q)
                          (map (populate_order d) (populate_many o_id (Order d) (u_orders usr)))) (\<lambda>orders.
               Inr \<lparr> m_orders = slice orders skip' (js_add skip' limit),
                     m_totalOrders = length orders,
                     m_totalPages = Math_ceil (js_div (Fin (of_nat (length orders))) limit),
                     m_currentPage = page,
                     m_pageSize = limit \<rparr>))"

subsection \<open>getCustomers\<close>

record customers_query =
  cq_page :: "jsnum option"
  cq_limit :: "jsnum option"
  cq_sortField :: "qval option"
  cq_sortOrder :: "qval option"
  cq_registrationDateFrom :: "qval option"
  cq_registrationDateTo :: "qval option"
  cq_lastOrderDateFrom :: "qval option"
  cq_lastOrderDateTo :: "qval option"
  cq_totalAmountFrom :: "jsnum option"
  cq_totalAmountTo :: "jsnum option"
  cq_orderCountFrom :: "jsnum option"
  cq_orderCountTo :: "jsnum option"
  cq_search :: "qval option"

record user_filters =
  uf_createdAt_gte :: "int option"
  uf_createdAt_lte :: "int option"
  uf_lastOrderDate_gte :: "int option"
  uf_lastOrderDate_lte :: "int option"
  uf_totalAmount_gte :: "rat option"
  uf_totalAmount_lte :: "rat option"
  uf_orderCount_gte :: "rat option"
  uf_orderCount_lte :: "rat option"
  uf_or :: "(regex \<times> oid list) option"  \<comment> \<open>name matches, or lastOrder is one of the identities\<close>

definition user_filters_of :: "js_env \<Rightarrow> customers_query \<Rightarrow> error + user_filters" where
  "user_filters_of E q =
     then_with (date_param E InvalidRegistrationDateFrom (cq_registrationDateFrom q)) (\<lambda>regFrom.
     then_with (end_of_day_param E InvalidRegistrationDateTo (cq_registrationDateTo q)) (\<lambda>regTo.
     then_with (date_param E InvalidLastOrderDateFrom (cq_lastOrderDateFrom q)) (\<lambda>lastFrom.
     then_with (end_of_day_param E InvalidLastOrderDateTo (cq_lastOrderDateTo q)) (\<lambda>lastTo.
     then_with (number_param InvalidTotalAmountFrom (cq_totalAmountFrom q)) (\<lambda>amountFrom.
     then_with (number_param InvalidTotalAmountTo (cq_totalAmountTo q)) (\<lambda>amountTo.
     then_with (number_param InvalidOrderCountFrom (cq_orderCountFrom q)) (\<lambda>countFrom.
     then_with (number_param InvalidOrderCountTo (cq_orderCountTo q)) (\<lambda>countTo.
       Inr \<lparr> uf_createdAt_gte = regFrom, uf_createdAt_lte = regTo,
             uf_lastOrderDate_gte = lastFrom, uf_lastOrderDate_lte = lastTo,
             uf_totalAmount_gte = amountFrom, uf_totalAmount_lte = amountTo,
             uf_orderCount_gte = countFrom, uf_orderCount_lte = countTo,
             uf_or = None \<rparr>))))))))"

text \<open>The search of the customers: the orders whose delivery address matches, at most
  fifty of them, are resolved first; a customer matches by name or by last order.\<close>

definition customer_search :: "db \<Rightarrow> string \<Rightarrow> error + regex \<times> oid list" where
  "customer_search d safeSearch' =
     then_with (RegExp (escapeRegExp safeSearch')) (\<lambda>searchRegex.
       Inr (searchRegex,
            map o_id (take 50 (filter (\<lambda>o'. regex_test searchRegex (deliveryAddress o')) (Order d)))))"

text \<open>A range condition on a field that a document does not have matches nothing.\<close>

definition user_matches :: "user_filters \<Rightarrow> user \<Rightarrow> bool" where
  "user_matches f u =
     (in_range (u_createdAt u) (uf_createdAt_gte f) (uf_createdAt_lte f) \<and>
      (case lastOrderDate u of
         None \<Rightarrow> uf_lastOrderDate_gte f = None \<and> uf_lastOrderDate_lte f = None
       | Some t \<Rightarrow> in_range t (uf_lastOrderDate_gte f) (uf_lastOrderDate_lte f)) \<and>
      in_range (u_totalAmount u) (uf_totalAmount_gte f) (uf_totalAmount_lte f) \<and>
      in_range (orderCount u) (uf_orderCount_gte f) (uf_orderCount_lte f) \<and>
      (case uf_or f of
         None \<Rightarrow> True
       | Some (searchRegex, orderIds) \<Rightarrow>
           regex_test searchRegex (name u) \<or>
           (case lastOrder u of None \<Rightarrow> False | Some i \<Rightarrow> i \<in> set orderIds)))"

definition customer_sort_fields :: "string list" where
  "customer_sort_fields = [''createdAt'', ''totalAmount'', ''orderCount'', ''lastOrderDate'', ''name'']"

definition sort_users :: "string \<Rightarrow> string \<Rightarrow> user list \<Rightarrow> user list" where
  "sort_users safeSortField' safeSortOrder' us =
     directed safeSortOrder'
       (if safeSortField' = ''totalAmount'' then sort_key u_totalAmount us
        else if safeSortField' = ''orderCount'' then sort_key orderCount us
        else if safeSortField' = ''lastOrderDate'' then sort_key lastOrderDate us
        else if safeSortField' = ''name'' then sort_key name us
        else sort_key u_createdAt us)"

text \<open>\<open>User.find(filters, null, { sort, skip, limit })\<close>: the store refuses a negative
  skip; a limit of zero is no limit.\<close>

definition find_users :: "user_filters \<Rightarrow> string \<Rightarrow> string \<Rightarrow> int \<Rightarrow> int \<Rightarrow> user list \<Rightarrow> error + user list" where
  "find_users f safeSortField' safeSortOrder' skip' limit' us =
     then_with (skip_stage skip' (sort_users safeSortField' safeSortOrder' (filter (user_matches f) us))) (\<lambda>skipped.
       Inr (if limit' = 0 then skipped else take (nat limit') skipped))"

record customers_response =
  c_customers :: "user list"
  c_totalUsers :: nat
  c_totalPages :: jsnum
  c_currentPage :: int
  c_pageSize :: int

definition getCustomers :: "js_env \<Rightarrow> customers_query \<Rightarrow> db \<Rightarrow> error + customers_response" where
  "getCustomers E q d =
     (let safePage' = safePage (or_default (cq_page q) 1);
          safeLimit' = safeLimit (or_default (cq_limit q) 10);
          safeSortField' = safeSortField customer_sort_fields (cq_sortField q);
          safeSortOrder' = safeSortOrder (cq_sortOrder q)
      in then_with (safeSearch (cq_search q)) (\<lambda>safeSearch'.
         then_with (user_filters_of E q) (\<lambda>f0.
         then_with (case safeSearch' of
                      None \<Rightarrow> Inr f0
                    | Some s \<Rightarrow> if s = [] then Inr f0
                               else then_with (customer_search d s) (\<lambda>c. Inr (f0\<lparr>uf_or := Some c\<rparr>))) (\<lambda>f.
         then_with (find_users f safeSortField' safeSortOrder'
                      ((safePage' - 1) * safeLimit') safeLimit' (User d)) (\<lambda>users.
           let totalUsers = length (filter (user_matches f) (User d))
           in Inr \<lparr> c_customers = users,
                    c_totalUsers = totalUsers,
                    c_totalPages = Math_ceil (js_div (Fin (of_nat totalUsers)) (Fin (of_int safeLimit'))),
                    c_currentPage = safePage',
                    c_pageSize = safeLimit' \<rparr>)))))"

section \<open>What the claims speak of\<close>

text \<open>The price the catalog has for an identity (\<open>None\<close> when no product has the
  identity, or when its price is null), and the sum of the catalog prices of a list of
  items, one term per entry, added from the left with the \<open>+\<close> of the language.\<close>

definition catalog_price :: "db \<Rightarrow> oid \<Rightarrow> rat option" where
  "catalog_price d i = (case find (\<lambda>p. p_id p = i) (Product d) of None \<Rightarrow> None | Some p \<Rightarrow> price p)"

definition catalog_total :: "(rat \<Rightarrow> rat \<Rightarrow> rat) \<Rightarrow> db \<Rightarrow> oid list \<Rightarrow> rat" where
  "catalog_total js_plus d items = foldl (\<lambda>a i. js_plus a (the (catalog_price d i))) 0 items"

text \<open>The validation failures of createOrder, as the specification lists them: items that
  are not an array or have a wrong size, an item that resolves to no product or to a
  product that is not for sale, a claimed total that is not the sum of the catalog
  prices, a phone that is not a string, is too long or is malformed.\<close>

definition validation_failure :: "(rat \<Rightarrow> rat \<Rightarrow> rat) \<Rightarrow> db \<Rightarrow> order_body \<Rightarrow> bool" where
  "validation_failure js_plus d b =
     ((case b_items b of
         NotArray \<Rightarrow> True
       | Array raw \<Rightarrow>
           length raw = 0 \<or> length raw > MAX_ITEMS \<or>
           list_ex (\<lambda>r. case r of None \<Rightarrow> False | Some i \<Rightarrow> catalog_price d i = None) raw \<or>
           b_total b \<noteq> Number (catalog_total js_plus d (map the raw))) \<or>
      (case b_phone b of
         NotString \<Rightarrow> True
       | String ph \<Rightarrow> length (trim ph) > 20 \<or> \<not> phone_regex_test (trim ph)))"

text \<open>The identities of the orders on page \<open>p\<close> of a getOrders query: what a caller
  sees who asks for the same filters, search, sort and limit with \<open>page=p\<close>.\<close>

definition page_ids :: "js_env \<Rightarrow> orders_query \<Rightarrow> db \<Rightarrow> nat \<Rightarrow> oid set" where
  "page_ids E q d p =
     (case getOrders E (q\<lparr>q_page := Some (Fin (of_nat p))\<rparr>) d of
        Inl _ \<Rightarrow> {}
      | Inr r \<Rightarrow> set (map v_id (r_orders r)))"

section \<open>Two small shops\<close>

text \<open>A catalog of three products, one of them not for sale, with no users and no orders
  yet; an Order model that accepts every document; and a request body with a valid
  phone.  The prices and totals of the examples are small integers, on which the sum
  of the language is the exact sum.\<close>

definition example_model :: order_model where
  "example_model = \<lparr> new_id = 500, new_orderNumber = 1, new_status = ''created'',
     new_createdAt = 0, validates = (\<lambda>_. True), sanitizeHtml = (\<lambda>s. s) \<rparr>"

definition example_db :: db where
  "example_db = \<lparr> Product = [\<lparr> p_id = 101, title = ''tea'', price = Some 10 \<rparr>,
                              \<lparr> p_id = 102, title = ''cup'', price = Some 25 \<rparr>,
                              \<lparr> p_id = 103, title = ''pot'', price = None \<rparr>],
                  User = [], Order = [] \<rparr>"

definition example_body :: "oid list \<Rightarrow> rat \<Rightarrow> order_body" where
  "example_body items tot = \<lparr> b_address = ''Main street 1'', b_payment = ''card'',
     b_phone = String ''+1234567890'', b_total = Number tot, b_email = ''a@b.c'',
     b_items = Array (map Some items), b_comment = [] \<rparr>"

text \<open>
  The second shop.  Its server runs in UTC; \<open>Number\<close> and \<open>Date\<close> are given
  on the strings the examples send: \<open>new Date('2023-01-01')\<close> is midnight UTC of that
  day, 1672531200000 ms after the epoch.  Order 1 of customer 7 was made at
  2023-01-01T23:59:59.998Z, order 2 of customer 8 at 2023-01-02T00:00:00.000Z, and the
  two customers registered at these same instants.  Customer 9 registered and made
  eleven orders at 2023-02-01T00:00:00.000Z.
\<close>

definition shop_env :: js_env where
  "shop_env =
     \<lparr> Number_of = (\<lambda>s. if s = ''+1'' then Fin 1 else if s = ''2'' then Fin 2 else NaN),
       Date_of = (\<lambda>s. if s = ''2023-01-01'' then Some 1672531200000 else None),
       LocalTZA = (\<lambda>_ _. 0) \<rparr>"

definition shop_order :: "oid \<Rightarrow> int \<Rightarrow> oid \<Rightarrow> oid list \<Rightarrow> rat \<Rightarrow> int \<Rightarrow> order" where
  "shop_order i n c ps amount t =
     \<lparr> o_id = i, orderNumber = n, status = ''created'', totalAmount = amount, products = ps,
       customer = c, createdAt = t, deliveryAddress = ''Main street 1'',
       phone = ''+1234567890'', email = ''a@b.c'', comment = [], payment = ''card'' \<rparr>"

definition shop_user :: "oid \<Rightarrow> string \<Rightarrow> int \<Rightarrow> oid list \<Rightarrow> user" where
  "shop_user i n t os =
     \<lparr> u_id = i, name = n, u_createdAt = t, lastOrderDate = Some t, u_totalAmount = 0,
       orderCount = of_nat (length os), u_orders = os, lastOrder = Some (last os) \<rparr>"

definition eleven :: "nat list" where
  "eleven = [1, 2, 3, 4, 5, 6, 7, 8, 9, 10, 11]"

definition shop_db :: db where
  "shop_db =
     \<lparr> Product = [\<lparr> p_id = 101, title = ''tea'', price = Some 10 \<rparr>,
                  \<lparr> p_id = 102, title = ''cup'', price = Some 25 \<rparr>,
                  \<lparr> p_id = 103, title = ''pot'', price = None \<rparr>,
                  \<lparr> p_id = 104, title = ''abc'', price = Some 5 \<rparr>],
       User = [shop_user 7 ''alice'' 1672617599998 [201],
               shop_user 8 ''bob'' 1672617600000 [202],
               shop_user 9 ''carol'' 1675209600000 (map (\<lambda>k. 300 + k) eleven)],
       Order = [shop_order 201 1 7 [101, 102] 35 1672617599998,
                shop_order 202 2 8 [104] 5 1672617600000]
               @ map (\<lambda>k. shop_order (300 + k) (int (300 + k)) 9 [101] 10 1675209600000) eleven \<rparr>"

definition no_orders_query :: orders_query where
  "no_orders_query =
     \<lparr> q_page = None, q_limit = None, q_sortField = None, q_sortOrder = None, q_status = None,
       q_totalAmountFrom = None, q_totalAmountTo = None, q_orderDateFrom = None,
       q_orderDateTo = None, q_search = None \<rparr>"

definition no_customers_query :: customers_query where
  "no_customers_query =
     \<lparr> cq_page = None, cq_limit = None, cq_sortField = None, cq_sortOrder = None,
       cq_registrationDateFrom = None, cq_registrationDateTo = None,
       cq_lastOrderDateFrom = None, cq_lastOrderDateTo = None,
       cq_totalAmountFrom = None, cq_totalAmountTo = None,
       cq_orderCountFrom = None, cq_orderCountTo = None, cq_search = None \<rparr>"

definition no_my_orders_query :: my_orders_query where
  "no_my_orders_query = \<lparr> mq_search = None, mq_page = None, mq_limit = None \<rparr>"

definition upload_example_env :: upload_env where
  "upload_example_env =
     \<lparr> sharp = (\<lambda>_. Metadata (Some 640) (Some 480)), UPLOAD_PATH = ''images'', UPLOAD_PATH_TEMP = ''temp'' \<rparr>"

definition small_file :: multer_file where
  "small_file =
     \<lparr> f_size = Some 2048, f_path = ''/app/public/temp/0a1b.png'', f_filename = ''0a1b.png'',
       f_originalname = ''logo.png'' \<rparr>"

definition upload_example_state :: upload_state where
  "upload_example_state = \<lparr> disk = [''/app/public/temp/0a1b.png''], calls = [] \<rparr>"

section \<open>Proofs\<close>

subsection \<open>createOrder: the basket and the catalog\<close>

lemma find_find_in:
  "i \<in> set items \<Longrightarrow> find (\<lambda>p. p_id p = i) (find_in ps items) = find (\<lambda>p. p_id p = i) ps"
  unfolding find_in_def by (induction ps) auto

lemma totalBasket_fold:
  "totalBasket js_plus basket = foldl js_plus 0 (map (\<lambda>c. the (price c)) basket)"
  by (simp add: totalBasket_def foldl_map)

lemma catalog_total_fold:
  "catalog_total js_plus d items = foldl js_plus 0 (map (\<lambda>i. the (catalog_price d i)) items)"
  by (simp add: catalog_total_def foldl_map)

lemma fill_basket_Inr:
  "fill_basket ps items = Inr basket \<Longrightarrow>
     map p_id basket = items \<and>
     map price basket = map (\<lambda>i. case find (\<lambda>p. p_id p = i) ps of None \<Rightarrow> None | Some p \<Rightarrow> price p) items \<and>
     (\<forall>p \<in> set basket. price p \<noteq> None)"
proof (induction items arbitrary: basket)
  case Nil
  then show ?case by simp
next
  case (Cons i items)
  then show ?case
    by (auto split: option.splits sum.splits dest: find_Some_iff[THEN iffD1])
qed

lemma fill_basket_sellable:
  "\<forall>i \<in> set items. \<exists>p. find (\<lambda>p. p_id p = i) ps = Some p \<and> price p \<noteq> None \<Longrightarrow>
   \<exists>basket. fill_basket ps items = Inr basket"
  by (induction items) (auto split: option.splits sum.splits)

lemma length_find_in_distinct:
  assumes "distinct (map p_id ps)"
  shows "length (find_in ps items) = card (set items \<inter> p_id ` set ps)"
proof -
  have "distinct (map p_id (find_in ps items))"
    using assms unfolding find_in_def by (simp add: distinct_map_filter)
  then have "length (find_in ps items) = card (set (map p_id (find_in ps items)))"
    by (metis distinct_card length_map)
  also have "set (map p_id (find_in ps items)) = set items \<inter> p_id ` set ps"
    unfolding find_in_def by auto
  finally show ?thesis .
qed

lemma resolved_find:
  assumes "\<forall>i\<in>set items. \<exists>p\<in>set ps. p_id p = i \<and> price p \<noteq> None" "distinct (map p_id ps)"
  shows "\<forall>i\<in>set items. \<exists>p. find (\<lambda>p. p_id p = i) ps = Some p \<and> price p \<noteq> None"
proof
  fix i assume "i \<in> set items"
  with assms(1) obtain p where p: "p \<in> set ps" "p_id p = i" "price p \<noteq> None" by blast
  then obtain q where q: "find (\<lambda>p. p_id p = i) ps = Some q"
    by (cases "find (\<lambda>p. p_id p = i) ps") (auto simp: find_None_iff)
  then have "q \<in> set ps" "p_id q = i"
    by (auto simp: find_Some_iff)
  with p assms(2) have "q = p"
    by (meson distinct_map inj_onD)
  with q p show "\<exists>p. find (\<lambda>p. p_id p = i) ps = Some p \<and> price p \<noteq> None" by simp
qed

lemma fill_basket_catalog:
  assumes "fill_basket (find_in (Product d) items) items = Inr basket"
  shows "totalBasket js_plus basket = catalog_total js_plus d items"
    and "\<forall>i\<in>set items. catalog_price d i \<noteq> None"
    and "map p_id basket = items"
proof -
  from fill_basket_Inr[OF assms]
  have ids: "map p_id basket = items"
    and pr: "map price basket = map (catalog_price d) items"
    and some: "\<forall>p\<in>set basket. price p \<noteq> None"
    by (simp_all add: catalog_price_def find_find_in cong: map_cong)
  from pr have "map the (map price basket) = map the (map (catalog_price d) items)"
    by simp
  then have "map (\<lambda>c. the (price c)) basket = map (\<lambda>i. the (catalog_price d i)) items"
    by (simp add: comp_def)
  then show "totalBasket js_plus basket = catalog_total js_plus d items"
    by (simp add: totalBasket_fold catalog_total_fold)
  show "map p_id basket = items" by (rule ids)
  from some have "\<forall>x\<in>set (map price basket). x \<noteq> None" by simp
  then show "\<forall>i\<in>set items. catalog_price d i \<noteq> None"
    unfolding pr by simp
qed

lemma basket_of_resolved:
  assumes "\<forall>i\<in>set items. \<exists>p. find (\<lambda>p. p_id p = i) (Product d) = Some p \<and> price p \<noteq> None"
  shows "\<exists>basket. fill_basket (find_in (Product d) items) items = Inr basket \<and>
           totalBasket js_plus basket = catalog_total js_plus d items"
proof -
  have "\<forall>i\<in>set items. \<exists>p. find (\<lambda>p. p_id p = i) (find_in (Product d) items) = Some p \<and> price p \<noteq> None"
    using assms by (simp add: find_find_in)
  then obtain basket where b: "fill_basket (find_in (Product d) items) items = Inr basket"
    using fill_basket_sellable by blast
  with fill_basket_catalog(1) [OF b] show ?thesis by blast
qed

lemma createOrder_Inl:
  "createOrder js_plus M u b d = (Inl e, d') \<Longrightarrow> d' = d"
  by (auto simp: createOrder_def Let_def save_def
      split: items_value.splits string_value.splits total_value.splits sum.splits if_splits)

lemma createOrder_Inr:
  assumes "createOrder js_plus M u b d = (Inr doc, d')"
  obtains raw ph basket where
    "b_items b = Array raw" "raw \<noteq> []" "length raw \<le> MAX_ITEMS"
    "b_phone b = String ph" "length (trim ph) \<le> 20" "phone_regex_test (trim ph)"
    "\<not> list_ex (\<lambda>i. i = None) raw"
    "length (find_in (Product d) (map the raw)) = length raw"
    "fill_basket (find_in (Product d) (map the raw)) (map the raw) = Inr basket"
    "b_total b = Number (totalBasket js_plus basket)"
    "doc = new_Order M u b (totalBasket js_plus basket) (map the raw) (trim ph)"
    "validates M doc" "d' = d\<lparr>Order := Order d @ [doc]\<rparr>"
  using assms
  by (auto simp: createOrder_def Let_def save_def
      split: items_value.splits string_value.splits total_value.splits sum.splits if_splits)

lemma example_hyps:
  "distinct (map p_id (Product example_db))"
  "b_phone (example_body items tot) = String ''+1234567890''"
  "length (trim ''+1234567890'') \<le> 20"
  "phone_regex_test (trim ''+1234567890'')"
  "b_items (example_body items tot) = Array (map Some items)"
  "b_total (example_body items tot) = Number tot"
  by (simp_all add: example_db_def example_body_def trim_def is_space_def
      phone_regex_test_def is_digit_def)

lemma example_catalog:
  "catalog_price example_db 101 = Some 10"
  "catalog_price example_db 102 = Some 25"
  "catalog_price example_db 103 = None"
  by (simp_all add: catalog_price_def example_db_def)

subsection \<open>createOrder: the comparison of the totals\<close>

text \<open>
  What the handler does with a request that reaches the comparison of the totals: its
  items are between one and fifty pairwise distinct identities, each of a product of the
  catalog with a price, and its phone passes the phone checks.  The recomputed total is
  the sum of the catalog prices of the items; a claimed total that is not this number
  fails with BadRequest (wrong total) and leaves the store as it was; a claimed total
  that is this number is saved as \<open>totalAmount\<close>, and once the schema accepts the
  document the order collection is the old one with this order appended.
\<close>

lemma createOrder_total_check:
  assumes ids: "distinct (map p_id (Product d))"
    and items: "b_items b = Array (map Some items)" "items \<noteq> []" "length items \<le> MAX_ITEMS"
      "distinct items"
    and sellable: "\<forall>i\<in>set items. \<exists>p\<in>set (Product d). p_id p = i \<and> price p \<noteq> None"
    and phone: "b_phone b = String ph" "length (trim ph) \<le> 20" "phone_regex_test (trim ph)"
  shows "(b_total b \<noteq> Number (catalog_total js_plus d items) \<longrightarrow>
            createOrder js_plus M u b d = (Inl (BadRequestError WrongTotal), d)) \<and>
         (b_total b = Number (catalog_total js_plus d items) \<longrightarrow>
            createOrder js_plus M u b d =
              save M (new_Order M u b (catalog_total js_plus d items) items (trim ph)) d \<and>
            totalAmount (new_Order M u b (catalog_total js_plus d items) items (trim ph)) =
              catalog_total js_plus d items \<and>
            (validates M (new_Order M u b (catalog_total js_plus d items) items (trim ph)) \<longrightarrow>
               Order (snd (createOrder js_plus M u b d)) =
                 Order d @ [new_Order M u b (catalog_total js_plus d items) items (trim ph)]))"
proof -
  have sub: "set items \<subseteq> p_id ` set (Product d)"
    using sellable by auto
  have len: "length (find_in (Product d) items) = length items"
    using length_find_in_distinct[OF ids, of items] sub items(4)
    by (simp add: Int_absorb2 distinct_card)
  obtain basket where basket: "fill_basket (find_in (Product d) items) items = Inr basket"
      "totalBasket js_plus basket = catalog_total js_plus d items"
    using basket_of_resolved[OF resolved_find[OF sellable ids]] by blast
  have nocast: "\<not> list_ex (\<lambda>i. i = None) (map Some items)"
    by (simp add: list_ex_iff)
  show ?thesis
    using items(1-3) phone len basket nocast
    by (cases "b_total b")
       (simp_all add: createOrder_def Let_def comp_def new_Order_def save_def)
qed

text \<open>
  The scenario of the specification: items priced 10 and 25.  The claimed total 34 is
  refused; the claimed total 35 is persisted as 35.
\<close>

lemma createOrder_total_scenario:
  "createOrder (+) example_model 7 (example_body [101, 102] 34) example_db =
     (Inl (BadRequestError WrongTotal), example_db) \<and>
   createOrder (+) example_model 7 (example_body [101, 102] 35) example_db =
     (Inr (new_Order example_model 7 (example_body [101, 102] 35) 35 [101, 102] ''+1234567890''),
      example_db\<lparr>Order :=
        [new_Order example_model 7 (example_body [101, 102] 35) 35 [101, 102] ''+1234567890'']\<rparr>) \<and>
   totalAmount (new_Order example_model 7 (example_body [101, 102] 35) 35 [101, 102] ''+1234567890'') = 35"
  by (simp add: createOrder_def example_body_def example_db_def example_model_def Let_def
      find_in_def trim_def is_space_def phone_regex_test_def is_digit_def MAX_ITEMS_def
      totalBasket_def save_def new_Order_def)

text \<open>
  Two facts that hold for every request, whatever its phone and the number of its items:
  a claimed total that is not the sum of the catalog prices of the items is never
  accepted, and an order that is persisted carries the sum of the catalog prices, which
  is also the total the client claimed.
\<close>

lemma createOrder_wrong_total_rejected:
  assumes "b_items b = Array (map Some items)"
    and "b_total b \<noteq> Number (catalog_total js_plus d items)"
  shows "\<exists>e. createOrder js_plus M u b d = (Inl e, d)"
proof -
  obtain r d' where res: "createOrder js_plus M u b d = (r, d')"
    by (cases "createOrder js_plus M u b d")
  show ?thesis
  proof (cases r)
    case (Inl e)
    with res createOrder_Inl show ?thesis by blast
  next
    case (Inr doc)
    with res obtain raw ph basket where f:
      "b_items b = Array raw"
      "fill_basket (find_in (Product d) (map the raw)) (map the raw) = Inr basket"
      "b_total b = Number (totalBasket js_plus basket)"
      by (auto elim: createOrder_Inr)
    from f(1) assms(1) have "map the raw = items"
      by (auto simp: comp_def)
    with fill_basket_catalog(1) [OF f(2), of js_plus] f(3) assms(2) show ?thesis
      by simp
  qed
qed

lemma createOrder_persisted_total:
  assumes "createOrder js_plus M u b d = (Inr doc, d')"
  shows "b_total b = Number (totalAmount doc) \<and>
         totalAmount doc = catalog_total js_plus d (products doc) \<and>
         Order d' = Order d @ [doc]"
proof -
  from assms obtain raw ph basket where f:
    "fill_basket (find_in (Product d) (map the raw)) (map the raw) = Inr basket"
    "b_total b = Number (totalBasket js_plus basket)"
    "doc = new_Order M u b (totalBasket js_plus basket) (map the raw) (trim ph)"
    "d' = d\<lparr>Order := Order d @ [doc]\<rparr>"
    by (rule createOrder_Inr)
  with fill_basket_catalog(1) [OF f(1), of js_plus] show ?thesis
    by (simp add: new_Order_def)
qed

text \<open>
  A list of items that names a product more than once never gets as far: the catalog
  lookup returns every product once, the count guard sees fewer products than items and
  throws its "product not found", although every item has a product.  An order that is
  persisted therefore has pairwise distinct items, referenced as submitted.
\<close>

lemma createOrder_repeated_item_rejected:
  assumes ids: "distinct (map p_id (Product d))"
    and items: "b_items b = Array (map Some items)"
  shows "(\<not> distinct items \<longrightarrow> (\<exists>r. createOrder js_plus M u b d = (Inl (BadRequestError r), d))) \<and>
         (\<forall>doc d'. createOrder js_plus M u b d = (Inr doc, d') \<longrightarrow>
            distinct items \<and> products doc = items)"
proof -
  have success: "distinct items \<and> products doc = items"
    if ok: "createOrder js_plus M u b d = (Inr doc, d')" for doc d'
  proof -
    from ok obtain raw ph basket where f:
      "b_items b = Array raw"
      "length (find_in (Product d) (map the raw)) = length raw"
      "doc = new_Order M u b (totalBasket js_plus basket) (map the raw) (trim ph)"
      by (rule createOrder_Inr)
    from f(1) items have raw: "map the raw = items" by (auto simp: comp_def)
    have "length items = card (set items \<inter> p_id ` set (Product d))"
      using length_find_in_distinct[OF ids, of items] f(2) raw items f(1) by simp
    also have "\<dots> \<le> card (set items)"
      by (simp add: card_mono)
    finally have "distinct items"
      by (simp add: card_distinct card_length le_antisym)
    moreover have "products doc = items"
      using f(3) raw by (simp add: new_Order_def)
    ultimately show ?thesis by simp
  qed
  have "\<exists>r. createOrder js_plus M u b d = (Inl (BadRequestError r), d)" if dup: "\<not> distinct items"
  proof -
    have nocast: "\<not> list_ex (\<lambda>i. i = None) (map Some items)"
      by (simp add: list_ex_iff)
    have "length (find_in (Product d) items) \<le> card (set items)"
      using length_find_in_distinct[OF ids, of items] by (simp add: card_mono)
    also have "\<dots> < length items"
      using dup by (metis card_length distinct_card card_distinct le_neq_implies_less)
    finally have "length (find_in (Product d) items) \<noteq> length items" by simp
    then show ?thesis
      using items nocast
      by (auto simp: createOrder_def Let_def comp_def split: string_value.splits)
  qed
  with success show ?thesis by blast
qed

text \<open>
  Claim C1 fails on the count guard.  Two units of product 102: both items resolve to a
  product with a price, the sum of their catalog prices is 50 and the client claims 50,
  the phone is valid.  The claim says that the order is persisted with the total 50; the
  handler answers BadRequest (product not found) and persists nothing, because the
  lookup returned one product for two items.
\<close>

theorem createOrder_agreeing_total_refused:
  "list_all (\<lambda>i. catalog_price example_db i \<noteq> None) [102, 102] \<and>
   catalog_total (+) example_db [102, 102] = 50 \<and>
   b_total (example_body [102, 102] 50) = Number 50 \<and>
   createOrder (+) example_model 7 (example_body [102, 102] 50) example_db =
     (Inl (BadRequestError ProductMissing), example_db)"
  by (simp add: createOrder_def example_body_def example_db_def example_model_def Let_def
      find_in_def trim_def is_space_def phone_regex_test_def is_digit_def MAX_ITEMS_def
      catalog_total_def catalog_price_def)

text \<open>
  Claim C5 fails on the same guard.  The claim says that createOrder accepts a list with
  the same product more than once and counts every occurrence; the basket loop and the
  sum after the guard would do so, one basket entry per occurrence.  Two units of
  product 101 (price 10) with the claimed total 20 are refused by the guard, and the
  order collection stays empty.
\<close>

theorem createOrder_duplicates_refused:
  "createOrder (+) example_model 7 (example_body [101, 101] 20) example_db =
     (Inl (BadRequestError ProductMissing), example_db) \<and>
   fill_basket (Product example_db) [101, 101] =
     Inr [\<lparr> p_id = 101, title = ''tea'', price = Some 10 \<rparr>,
          \<lparr> p_id = 101, title = ''tea'', price = Some 10 \<rparr>] \<and>
   Order example_db = []"
  by (simp add: createOrder_def example_body_def example_db_def example_model_def Let_def
      find_in_def trim_def is_space_def phone_regex_test_def is_digit_def MAX_ITEMS_def)

subsection \<open>createOrder: no write on failure\<close>

text \<open>
  Claim C7.  Whenever createOrder ends in an error the store is unchanged; and every
  validation failure the handler knows (items not an array or of a wrong size, a phone
  that is not a string, too long or malformed, an item that resolves to no product or to
  a product of price null, a total that is not the recomputed sum) ends in an error
  with the store unchanged.
\<close>

theorem createOrder_error_no_write:
  "(\<forall>e d'. createOrder js_plus M u b d = (Inl e, d') \<longrightarrow> d' = d) \<and>
   (validation_failure js_plus d b \<longrightarrow> (\<exists>e. createOrder js_plus M u b d = (Inl e, d)))"
proof (intro conjI allI impI)
  fix e d' assume "createOrder js_plus M u b d = (Inl e, d')"
  then show "d' = d" by (rule createOrder_Inl)
next
  assume vf: "validation_failure js_plus d b"
  obtain r d' where res: "createOrder js_plus M u b d = (r, d')"
    by (cases "createOrder js_plus M u b d")
  show "\<exists>e. createOrder js_plus M u b d = (Inl e, d)"
  proof (cases r)
    case (Inl e)
    with res createOrder_Inl show ?thesis by blast
  next
    case (Inr doc)
    with res have ok: "createOrder js_plus M u b d = (Inr doc, d')" by simp
    from ok obtain raw ph basket where f:
      "b_items b = Array raw" "raw \<noteq> []" "length raw \<le> MAX_ITEMS"
      "b_phone b = String ph" "length (trim ph) \<le> 20" "phone_regex_test (trim ph)"
      "\<not> list_ex (\<lambda>i. i = None) raw"
      "fill_basket (find_in (Product d) (map the raw)) (map the raw) = Inr basket"
      "b_total b = Number (totalBasket js_plus basket)"
      by (rule createOrder_Inr)
    have t: "totalBasket js_plus basket = catalog_total js_plus d (map the raw)"
      by (rule fill_basket_catalog(1) [OF f(8)])
    have c: "\<forall>i\<in>set (map the raw). catalog_price d i \<noteq> None"
      by (rule fill_basket_catalog(2) [OF f(8)])
    have "\<not> list_ex (\<lambda>r. case r of None \<Rightarrow> False | Some i \<Rightarrow> catalog_price d i = None) raw"
      using c by (auto simp: list_ex_iff split: option.splits)
    with vf f t show ?thesis
      by (simp add: validation_failure_def)
  qed
qed

text \<open>Product 103 of the first shop is not for sale.\<close>

theorem createOrder_error_no_write_witness:
  "validation_failure (+) example_db (example_body [101, 103] 35) \<and>
   (\<exists>e. createOrder (+) example_model 7 (example_body [101, 103] 35) example_db = (Inl e, example_db))"
proof -
  have vf: "validation_failure (+) example_db (example_body [101, 103] 35)"
    by (simp add: validation_failure_def example_hyps example_catalog MAX_ITEMS_def)
  with createOrder_error_no_write [of "(+)" example_model 7 "example_body [101, 103] 35" example_db]
  show ?thesis by blast
qed

subsection \<open>Orders and customers by key\<close>

text \<open>
  An order of another user whose customer document exists is answered exactly as an
  order number that no order has: with the NotFound error of the absent order.  The
  order here is the one \<open>findOne\<close> returns for the number; the second store has no
  order of that number.
\<close>

lemma foreign_order_is_not_found:
  assumes "find (\<lambda>o'. orderNumber o' = n) (Order d) = Some o'"
    and "find (\<lambda>u. u_id u = customer o') (User d) = Some c"
    and "customer o' \<noteq> userId"
    and "\<forall>x \<in> set (Order d'). orderNumber x \<noteq> n"
  shows "getOrderCurrentUserByNumber userId (Some n) d = Inl (NotFoundError OrderAbsent) \<and>
         getOrderCurrentUserByNumber userId (Some n) d' = Inl (NotFoundError OrderAbsent)"
proof -
  from assms(2) have "u_id c = customer o'"
    by (auto simp: find_Some_iff)
  with assms(1-3) have "getOrderCurrentUserByNumber userId (Some n) d = Inl (NotFoundError OrderAbsent)"
    by (simp add: getOrderCurrentUserByNumber_def populate_order_def)
  moreover from assms(4) have "find (\<lambda>o'. orderNumber o' = n) (Order d') = None"
    by (simp add: find_None_iff)
  then have "getOrderCurrentUserByNumber userId (Some n) d' = Inl (NotFoundError OrderAbsent)"
    by (simp add: getOrderCurrentUserByNumber_def)
  ultimately show ?thesis by simp
qed

text \<open>An order whose customer document is gone: the populated customer is null and
  reading its identity throws.\<close>

lemma dangling_customer:
  assumes "find (\<lambda>o'. orderNumber o' = n) (Order d) = Some o'"
    and "find (\<lambda>u. u_id u = customer o') (User d) = None"
  shows "getOrderCurrentUserByNumber userId (Some n) d = Inl TypeError"
  using assms by (simp add: getOrderCurrentUserByNumber_def populate_order_def)

text \<open>
  Claim C8 fails on an order whose customer has been deleted.  In the second shop order 2
  belongs to customer 8.  deleteCustomer removes customer 8 and leaves the order.
  Customer 7 then asks for order 2 and for order 99, which no order has: the first
  request ends in a TypeError, the second in NotFound, so the caller can tell the
  existing order of another customer from a missing one.  Before the deletion both
  requests end in the same NotFound.
\<close>

theorem deleted_customer_order_is_distinguishable:
  "fst (deleteCustomer (Some 8) shop_db) = Inr (200, shop_user 8 ''bob'' 1672617600000 [202]) \<and>
   getOrderCurrentUserByNumber 7 (Some 2) (snd (deleteCustomer (Some 8) shop_db)) = Inl TypeError \<and>
   getOrderCurrentUserByNumber 7 (Some 99) (snd (deleteCustomer (Some 8) shop_db)) =
     Inl (NotFoundError OrderAbsent) \<and>
   getOrderCurrentUserByNumber 7 (Some 2) shop_db = Inl (NotFoundError OrderAbsent) \<and>
   getOrderCurrentUserByNumber 7 (Some 99) shop_db = Inl (NotFoundError OrderAbsent)"
  by code_simp

text \<open>
  Claim C9.  For an identity that no user has, getCustomerById answers with status 200
  and the body null, while updateCustomer and deleteCustomer fail with the NotFound
  error of the absent user and leave the store as it was.
\<close>

theorem missing_customer_policies:
  assumes "\<forall>u \<in> set (User d). u_id u \<noteq> i"
  shows "getCustomerById (Some i) d = Inr (200, None) \<and>
         updateCustomer upd (Some i) d = (Inl (NotFoundError UserAbsent), d) \<and>
         deleteCustomer (Some i) d = (Inl (NotFoundError UserAbsent), d)"
proof -
  from assms have "find (\<lambda>u. u_id u = i) (User d) = None"
    by (simp add: find_None_iff)
  then show ?thesis
    by (simp add: getCustomerById_def updateCustomer_def deleteCustomer_def)
qed

theorem missing_customer_policies_witness:
  "getCustomerById (Some 99) shop_db = Inr (200, None) \<and>
   updateCustomer (\<lambda>u. u\<lparr>name := ''dave''\<rparr>) (Some 99) shop_db = (Inl (NotFoundError UserAbsent), shop_db) \<and>
   deleteCustomer (Some 99) shop_db = (Inl (NotFoundError UserAbsent), shop_db)"
proof -
  have "\<forall>u \<in> set (User shop_db). u_id u \<noteq> 99"
    by (simp add: shop_db_def shop_user_def)
  from missing_customer_policies [OF this] show ?thesis .
qed

subsection \<open>uploadFile\<close>

text \<open>
  Claim C10.  A file of at most 2048 bytes is refused with BadRequest (file too small);
  its temporary file, when it has a path, is deleted and is no longer on the disk; and
  the only call the handler makes is that deletion, so the image library is never asked
  for the metadata of the file.
\<close>

theorem small_file_rejected:
  assumes "(case f_size file of None \<Rightarrow> 0 | Some n \<Rightarrow> n) \<le> 2048"
  shows "fst (uploadFile E (Some file) s) = Inl (BadRequestError FileTooSmall) \<and>
         (f_path file \<noteq> [] \<longrightarrow>
            f_path file \<notin> set (disk (snd (uploadFile E (Some file) s))) \<and>
            calls (snd (uploadFile E (Some file) s)) = calls s @ [Unlink (f_path file)]) \<and>
         (f_path file = [] \<longrightarrow> snd (uploadFile E (Some file) s) = s) \<and>
         (\<forall>p. SharpMetadata p \<in> set (calls (snd (uploadFile E (Some file) s))) \<longrightarrow>
              SharpMetadata p \<in> set (calls s))"
  using assms
  by (auto simp: uploadFile_def MIN_FILE_SIZE_STRICT_def MIN_FILE_SIZE_BYTES_def unlink_def)

text \<open>A file of exactly 2048 bytes that the middleware has stored.\<close>

theorem small_file_rejected_witness:
  "fst (uploadFile upload_example_env (Some small_file) upload_example_state) =
     Inl (BadRequestError FileTooSmall) \<and>
   f_path small_file \<notin> set (disk (snd (uploadFile upload_example_env (Some small_file) upload_example_state))) \<and>
   calls (snd (uploadFile upload_example_env (Some small_file) upload_example_state)) =
     [Unlink (f_path small_file)] \<and>
   f_path small_file \<in> set (disk upload_example_state)"
proof -
  have size: "(case f_size small_file of None \<Rightarrow> 0 | Some n \<Rightarrow> n) \<le> 2048"
    by (simp add: small_file_def)
  have path: "f_path small_file \<noteq> []"
    by (simp add: small_file_def)
  have before: "calls upload_example_state = []" "f_path small_file \<in> set (disk upload_example_state)"
    by (simp_all add: upload_example_state_def small_file_def)
  from small_file_rejected [OF size, of upload_example_env upload_example_state] path before
  show ?thesis by simp
qed

subsection \<open>getOrders: the count and the pages\<close>

lemma group_stage_ids: "v_id ` set (group_stage rs) = (\<lambda>r. o_id (r_order r)) ` set rs"
  by (induction rs rule: group_stage.induct) auto

lemma set_sort_stage: "set (sort_stage f dr rs) = set rs"
  by (simp add: sort_stage_def directed_def)

lemma pages_cover:
  assumes "0 < L"
  shows "(\<Union>p\<in>{1..}. set (take L (drop ((p - 1) * L) xs))) = set xs"
proof
  show "(\<Union>p\<in>{1..}. set (take L (drop ((p - 1) * L) xs))) \<subseteq> set xs"
    by (auto dest: in_set_takeD in_set_dropD)
next
  show "set xs \<subseteq> (\<Union>p\<in>{1..}. set (take L (drop ((p - 1) * L) xs)))"
  proof
    fix x assume "x \<in> set xs"
    then obtain i where i: "i < length xs" "xs ! i = x"
      by (auto simp: in_set_conv_nth)
    define p where "p = i div L + 1"
    have k: "(p - 1) * L \<le> i" "i - (p - 1) * L < L"
      using assms by (simp_all add: p_def minus_div_mult_eq_mod)
    have "take L (drop ((p - 1) * L) xs) ! (i - (p - 1) * L) = x"
      using i k by simp
    moreover have "i - (p - 1) * L < length (take L (drop ((p - 1) * L) xs))"
      using i k by simp
    ultimately have "x \<in> set (take L (drop ((p - 1) * L) xs))"
      by (metis nth_mem)
    moreover have "p \<in> {1..}" by (simp add: p_def)
    ultimately show "x \<in> (\<Union>p\<in>{1..}. set (take L (drop ((p - 1) * L) xs)))"
      by blast
  qed
qed

lemma order_filters_of_page [simp]:
  "order_filters_of E (q\<lparr>q_page := x\<rparr>) = order_filters_of E q"
  by (simp add: order_filters_of_def)

lemma getOrders_Inr:
  assumes "getOrders E q d = Inr r"
  obtains ss f cond orders where
    "safeSearch (q_search q) = Inr ss"
    "order_filters_of E q = Inr f"
    "(case ss of None \<Rightarrow> Inr None
      | Some s \<Rightarrow> if s = [] then Inr None
                 else then_with (searchConditions E s) (\<lambda>c. Inr (Some c))) = Inr cond"
    "dataPipeline (safeSortField order_sort_fields (q_sortField q)) (safeSortOrder (q_sortOrder q))
       ((safePage (or_default (q_page q) 1) - 1) * safeLimit (or_default (q_limit q) 10))
       (safeLimit (or_default (q_limit q) 10)) (basePipeline d f cond) = Inr orders"
    "r_orders r = orders"
    "totalOrders r = (case countPipeline (basePipeline d f cond) of [] \<Rightarrow> 0 | t # _ \<Rightarrow> t)"
    "pageSize r = safeLimit (or_default (q_limit q) 10)"
    "currentPage r = safePage (or_default (q_page q) 1)"
  using assms unfolding getOrders_def Let_def then_with_def
  by (auto split: sum.splits)

lemma dataPipeline_Inr:
  "dataPipeline f dr k L rs = Inr orders \<longleftrightarrow>
     0 \<le> k \<and> 0 < L \<and> orders = group_stage (take (nat L) (drop (nat k) (sort_stage f dr rs)))"
  by (auto simp: dataPipeline_def then_with_def skip_stage_def limit_stage_def split: sum.splits)

lemma totalOrders_card:
  "(case countPipeline rs of [] \<Rightarrow> 0 | t # _ \<Rightarrow> t) = card ((\<lambda>r. o_id (r_order r)) ` set rs)"
proof -
  have "length (remdups (map (\<lambda>r. o_id (r_order r)) rs)) = card ((\<lambda>r. o_id (r_order r)) ` set rs)"
    by (metis length_remdups_card_conv set_map)
  then show ?thesis
    by (cases "remdups (map (\<lambda>r. o_id (r_order r)) rs)") (auto simp: countPipeline_def Let_def)
qed

text \<open>
  Claim C6.  Whenever getOrders answers a query, the \<open>totalOrders\<close> it reports is the
  number of distinct orders on all the pages together: the pages are those of the same
  filters, search, sort and limit, one for every page number from 1 on.  Both pipelines
  start from the same flattened and searched rows; the count pipeline counts their
  distinct order identities, and the pages cut the same rows, sorted, into windows.
\<close>

theorem getOrders_count_consistent:
  assumes "getOrders E q d = Inr r"
  shows "card (\<Union>p\<in>{1..}. page_ids E q d p) = totalOrders r"
proof -
  let ?L = "safeLimit (or_default (q_limit q) 10)"
  let ?f = "safeSortField order_sort_fields (q_sortField q)"
  let ?dr = "safeSortOrder (q_sortOrder q)"
  from assms obtain ss f cond orders where h:
    "safeSearch (q_search q) = Inr ss"
    "order_filters_of E q = Inr f"
    "(case ss of None \<Rightarrow> Inr None
      | Some s \<Rightarrow> if s = [] then Inr None
                 else then_with (searchConditions E s) (\<lambda>c. Inr (Some c))) = Inr cond"
    "dataPipeline ?f ?dr ((safePage (or_default (q_page q) 1) - 1) * ?L) ?L (basePipeline d f cond) = Inr orders"
    "totalOrders r = (case countPipeline (basePipeline d f cond) of [] \<Rightarrow> 0 | t # _ \<Rightarrow> t)"
    by (rule getOrders_Inr)
  let ?rows = "sort_stage ?f ?dr (basePipeline d f cond)"
  from h(4) have L: "0 < ?L" by (simp add: dataPipeline_Inr)
  have page: "page_ids E q d p = (\<lambda>r. o_id (r_order r)) ` set (take (nat ?L) (drop ((p - 1) * nat ?L) ?rows))"
    if "p \<in> {1..}" for p
  proof -
    from that have p: "1 \<le> p" by simp
    then have sp: "safePage (Fin (of_nat p)) = int p"
      by (simp add: safePage_def)
    have k: "nat ((int p - 1) * ?L) = (p - 1) * nat ?L"
      using p L by (simp add: nat_mult_distrib of_nat_diff)
    have "0 \<le> (int p - 1) * ?L"
      using p L by simp
    then have "dataPipeline ?f ?dr ((int p - 1) * ?L) ?L (basePipeline d f cond) =
        Inr (group_stage (take (nat ?L) (drop ((p - 1) * nat ?L) ?rows)))"
      using L k by (simp add: dataPipeline_Inr)
    then have "\<exists>r'. getOrders E (q\<lparr>q_page := Some (Fin (of_nat p))\<rparr>) d = Inr r' \<and>
        r_orders r' = group_stage (take (nat ?L) (drop ((p - 1) * nat ?L) ?rows))"
      using h(1-3) sp
      by (simp add: getOrders_def Let_def then_with_def or_default_def)
    then show ?thesis
      by (auto simp: page_ids_def group_stage_ids)
  qed
  have "(\<Union>p\<in>{1..}. page_ids E q d p) =
      (\<Union>p\<in>{1..}. (\<lambda>r. o_id (r_order r)) ` set (take (nat ?L) (drop ((p - 1) * nat ?L) ?rows)))"
    using page by simp
  also have "\<dots> = (\<lambda>r. o_id (r_order r)) ` (\<Union>p\<in>{1..}. set (take (nat ?L) (drop ((p - 1) * nat ?L) ?rows)))"
    by blast
  also have "(\<Union>p\<in>{1..}. set (take (nat ?L) (drop ((p - 1) * nat ?L) ?rows))) = set ?rows"
    using L by (intro pages_cover) simp
  also have "set ?rows = set (basePipeline d f cond)"
    by (rule set_sort_stage)
  finally show ?thesis
    by (simp add: h(5) totalOrders_card)
qed

text \<open>A search for \<open>tea\<close> with the default limit: twelve orders have a product of that
  title, on thirteen rows and two pages.\<close>

theorem getOrders_count_consistent_witness:
  "\<exists>r. getOrders shop_env (no_orders_query\<lparr>q_search := Some (QString ''tea'')\<rparr>) shop_db = Inr r \<and>
       totalOrders r = 12 \<and>
       card (\<Union>p\<in>{1..}. page_ids shop_env (no_orders_query\<lparr>q_search := Some (QString ''tea'')\<rparr>) shop_db p) = 12"
proof -
  let ?q = "no_orders_query\<lparr>q_search := Some (QString ''tea'')\<rparr>"
  have "case getOrders shop_env ?q shop_db of Inl _ \<Rightarrow> False | Inr r \<Rightarrow> totalOrders r = 12"
    by code_simp
  then obtain r where r: "getOrders shop_env ?q shop_db = Inr r" "totalOrders r = 12"
    by (auto split: sum.splits)
  from getOrders_count_consistent [OF r(1)] r show ?thesis
    by simp
qed

text \<open>
  The pages are windows of rows, one row per product of an order, while \<open>totalPages\<close>
  is computed from the number of orders.  In the second shop, sorted upwards with
  \<open>limit=1\<close>, there are thirteen orders on fourteen rows: \<open>totalPages\<close> is 13 and
  page 14 still holds an order.  The pages of the theorem above are all the pages, not
  only the first \<open>totalPages\<close> of them.
\<close>

lemma pages_are_windows_of_rows:
  "(case getOrders shop_env
           (no_orders_query\<lparr>q_limit := Some (Fin 1), q_sortOrder := Some (QString ''asc''),
              q_page := Some (Fin 14)\<rparr>) shop_db of
      Inl _ \<Rightarrow> False
    | Inr r \<Rightarrow> totalOrders r = 13 \<and> totalPages r = 13 \<and> map v_id (r_orders r) = [311])"
  by code_simp

subsection \<open>Search\<close>

text \<open>
  getOrders and getCustomers build their pattern from the escaped search string: the
  pattern is then a sequence of literal characters, and testing it is looking for the
  search string in the text, letters compared without case.
\<close>

lemma backslash_syntax: "backslash \<in> set regex_syntax_chars"
  by (simp add: regex_syntax_chars_def)

lemma token_of_plain:
  "c \<notin> set regex_syntax_chars \<Longrightarrow> token_of c = TAtom (Lit c)"
  by (auto simp: token_of_def regex_syntax_chars_def)

lemma tokens_plain:
  "c \<notin> set regex_syntax_chars \<Longrightarrow> tokens (c # cs) = TAtom (Lit c) # tokens cs"
  using backslash_syntax by (cases cs) (auto simp: token_of_plain)

lemma tokens_escaped:
  "c \<in> set regex_syntax_chars \<Longrightarrow> tokens (backslash # c # cs) = TAtom (Lit c) # tokens cs"
  by simp

lemma tokens_escapeRegex: "tokens (escapeRegex s) = map (\<lambda>c. TAtom (Lit c)) s"
proof (induction s)
  case Nil
  then show ?case by (simp add: escapeRegex_def)
next
  case (Cons c s)
  have "escapeRegex (c # s) =
      (if c \<in> set regex_syntax_chars then backslash # c # escapeRegex s else c # escapeRegex s)"
    by (simp add: escapeRegex_def)
  with Cons show ?case
    by (simp add: tokens_plain tokens_escaped del: tokens.simps)
qed

lemma terms_literals:
  "terms (map (\<lambda>c. TAtom (Lit c)) s) = Inr (map (\<lambda>c. (Lit c, One)) s)"
proof (induction s)
  case Nil
  then show ?case by simp
next
  case (Cons c s)
  then show ?case by (cases s) (simp_all add: cons_term_def)
qed

lemma RegExp_escaped: "RegExp (escapeRegExp s) = Inr (map (\<lambda>c. (Lit c, One)) s)"
  by (simp add: RegExp_def escapeRegExp_def tokens_escapeRegex terms_literals)

lemma match_here_literals:
  "match_here (map (\<lambda>c. (Lit c, One)) s) t \<longleftrightarrow> prefix (map lower s) (map lower t)"
proof (induction s arbitrary: t)
  case Nil
  then show ?case by simp
next
  case (Cons c s)
  then show ?case by (cases t) (auto simp: atom_matches_def)
qed

lemma regex_test_literals:
  "regex_test (map (\<lambda>c. (Lit c, One)) s) t \<longleftrightarrow> contains_ci t s"
proof (induction t)
  case Nil
  then show ?case by (simp add: contains_ci_def match_here_literals)
next
  case (Cons a t)
  then show ?case
    by (simp add: contains_ci_def match_here_literals sublist_Cons_right del: match_here.simps)
qed

lemma escaped_search_is_literal:
  "\<exists>r. RegExp (escapeRegExp s) = Inr r \<and> (\<forall>t. regex_test r t \<longleftrightarrow> contains_ci t s)"
  by (simp add: RegExp_escaped regex_test_literals)


text \<open>The example of the specification: the escaped search \<open>a.b*c\<close> does not match
  \<open>aXbYYc\<close>; it matches a text that contains these five characters.\<close>

lemma escaped_search_example:
  "(case RegExp (escapeRegExp ''a.b*c'') of
      Inl _ \<Rightarrow> False
    | Inr r \<Rightarrow> \<not> regex_test r ''aXbYYc'' \<and> regex_test r ''xA.B*Cx'')"
  by code_simp

text \<open>
  Claim C2 fails on getOrdersCurrentUser, which hands the search string to \<open>RegExp\<close>
  unescaped.  Customer 8 has one order, of the product titled \<open>abc\<close>.  The search
  \<open>a.c\<close> is not a part of that title, yet the order is returned: the dot was read as
  a pattern.  The search \<open>+1\<close> is refused by the \<open>RegExp\<close> constructor and the request
  ends in a SyntaxError.
\<close>

theorem getOrdersCurrentUser_search_is_pattern:
  "(case getOrdersCurrentUser shop_env 8
           (no_my_orders_query\<lparr>mq_search := Some (QString ''a.c'')\<rparr>) shop_db of
      Inl _ \<Rightarrow> False
    | Inr r \<Rightarrow> map (\<lambda>po. map title (po_products po)) (m_orders r) = [[''abc'']]) \<and>
   \<not> contains_ci ''abc'' ''a.c'' \<and>
   getOrdersCurrentUser shop_env 8
     (no_my_orders_query\<lparr>mq_search := Some (QString ''+1'')\<rparr>) shop_db = Inl SyntaxError"
  by code_simp

subsection \<open>The page size\<close>

text \<open>
  getOrders and getCustomers clamp the limit: 10 for a limit that is not a finite
  number, is not positive or is above 10, the floor of the limit otherwise (which is 0
  for a limit below 1); and that is the page size they report.
\<close>

lemma safeLimit_clamp:
  "safeLimit NaN = 10" "safeLimit PosInf = 10" "safeLimit NegInf = 10"
  "x \<le> 0 \<Longrightarrow> safeLimit (Fin x) = 10"
  "10 < x \<Longrightarrow> safeLimit (Fin x) = 10"
  "0 < x \<Longrightarrow> x \<le> 10 \<Longrightarrow> safeLimit (Fin x) = \<lfloor>x\<rfloor>"
proof -
  show "safeLimit NaN = 10" "safeLimit PosInf = 10" "safeLimit NegInf = 10"
    "x \<le> 0 \<Longrightarrow> safeLimit (Fin x) = 10"
    by (simp_all add: safeLimit_def)
  show "10 < x \<Longrightarrow> safeLimit (Fin x) = 10"
  proof -
    assume "10 < x"
    then have "10 \<le> \<lfloor>x\<rfloor>" by linarith
    with \<open>10 < x\<close> show ?thesis by (simp add: safeLimit_def MAX_LIMIT_def)
  qed
  show "0 < x \<Longrightarrow> x \<le> 10 \<Longrightarrow> safeLimit (Fin x) = \<lfloor>x\<rfloor>"
  proof -
    assume "0 < x" "x \<le> 10"
    then have "\<lfloor>x\<rfloor> \<le> 10" by linarith
    with \<open>0 < x\<close> show ?thesis by (simp add: safeLimit_def MAX_LIMIT_def)
  qed
qed


lemma getOrders_pageSize:
  assumes "getOrders E q d = Inr r"
  shows "pageSize r = safeLimit (or_default (q_limit q) 10)"
  using assms by (rule getOrders_Inr)

lemma getCustomers_pageSize:
  assumes "getCustomers E q d = Inr r"
  shows "c_pageSize r = safeLimit (or_default (cq_limit q) 10)"
  using assms unfolding getCustomers_def Let_def then_with_def
  by (auto split: sum.splits)

text \<open>
  Claim C3 fails on getOrdersCurrentUser, which uses \<open>Number(limit)\<close> as it comes.
  Customer 9 has eleven orders; with \<open>limit=1000\<close> the reported page size is 1000 and
  all eleven orders are on the one page.
\<close>

theorem getOrdersCurrentUser_limit_unbounded:
  "(case getOrdersCurrentUser shop_env 9
           (no_my_orders_query\<lparr>mq_limit := Some (Fin 1000)\<rparr>) shop_db of
      Inl _ \<Rightarrow> False
    | Inr r \<Rightarrow> m_pageSize r = Fin 1000 \<and> length (m_orders r) = 11)"
  by code_simp

subsection \<open>Upper bounds of date ranges\<close>

text \<open>
  getCustomers moves the upper bound of a date range to the last millisecond of the
  day, in the local time of the server: for a server whose local time is UTC and a date
  that parses to midnight UTC the bound is 23:59:59.999 of that day.  getOrders compares with the date
  as parsed.
\<close>

lemma end_of_day_utc:
  assumes "\<And>t' u. LocalTZA E t' u = 0" "Date_of E s = Some t" "t mod 86400000 = 0"
  shows "end_of_day_param E msg (Some (QString s)) = Inr (Some (t + 86399999))"
proof -
  from assms(3) have "t div 86400000 * 86400000 = t"
    by (metis add.right_neutral div_mult_mod_eq)
  with assms(1,2) show ?thesis
    by (simp add: end_of_day_param_def date_param_def then_with_def setHours_endOfDay_def Let_def)
qed

lemma orderDateTo_as_parsed:
  assumes "order_filters_of E q = Inr f" "q_orderDateTo q = Some (QString s)"
  shows "of_createdAt_lte f = Date_of E s"
  using assms
  by (auto simp: order_filters_of_def then_with_def date_param_def split: sum.splits option.splits)

lemma getCustomers_registrationDateTo_example:
  "(case getCustomers shop_env
           (no_customers_query\<lparr>cq_registrationDateTo := Some (QString ''2023-01-01'')\<rparr>) shop_db of
      Inl _ \<Rightarrow> False
    | Inr r \<Rightarrow> map u_id (c_customers r) = [7])"
  by code_simp

text \<open>
  Claim C4 fails on \<open>orderDateTo\<close>.  The shop has an order made at
  2023-01-01T23:59:59.998Z (1672531200000 + 86399998 ms); getOrders with
  \<open>orderDateTo=2023-01-01\<close> returns no order at all, because its bound is midnight at
  the start of that day.
\<close>

theorem getOrders_orderDateTo_midnight:
  "list_ex (\<lambda>o'. createdAt o' = 1672531200000 + 86399998) (Order shop_db) \<and>
   getOrders shop_env (no_orders_query\<lparr>q_orderDateTo := Some (QString ''2023-01-01'')\<rparr>) shop_db =
     Inr \<lparr> r_orders = [], totalOrders = 0, totalPages = 0, currentPage = 1, pageSize = 10 \<rparr>"
  by code_simp

end
